theory Spec2Isabelle
  imports Main
begin

section \<open>JavaScript strings and the built-ins the source calls\<close>

text \<open>
  The source holds three modules: the welcome widget \<^verbatim>\<open>GettingStartedWidget\<close>, the skeleton
  content it imports (the file templates), and \<^verbatim>\<open>WorkspaceFrontendContribution\<close> (the workspace
  commands).
  A JavaScript string is modelled as a \<^typ>\<open>string\<close>: a list of code units, each below 256.
  A string is falsy exactly when it is empty, and \<^verbatim>\<open>undefined\<close> is \<^term>\<open>None\<close>.
\<close>

definition falsy :: "string \<Rightarrow> bool" where
  "falsy s = (s = [])"

definition truthy :: "string option \<Rightarrow> bool" where
  "truthy v = (case v of None \<Rightarrow> False | Some s \<Rightarrow> s \<noteq> [])"

text \<open>
  \<^verbatim>\<open>GetSubstitution\<close> of ECMAScript, for a match without capture groups: in the replacement
  text \<^verbatim>\<open>$$\<close> stands for a dollar sign, \<^verbatim>\<open>$&\<close> for the matched text, \<^verbatim>\<open>$`\<close> for the text before
  the match and \<^verbatim>\<open>$'\<close> for the text after it; any other character, and a dollar sign followed by
  anything else, stands for itself. The arguments are the matched text, the text before the
  match, the text after it and the replacement.
\<close>

fun getSubstitution :: "string \<Rightarrow> string \<Rightarrow> string \<Rightarrow> string \<Rightarrow> string" where
  "getSubstitution m b a [] = []"
| "getSubstitution m b a [c] = [c]"
| "getSubstitution m b a (c # d # r) =
     (if c = CHR ''$'' then
        (if d = CHR ''$'' then CHR ''$'' # getSubstitution m b a r
         else if d = CHR ''&'' then m @ getSubstitution m b a r
         else if d = CHR 0x60 then b @ getSubstitution m b a r
         else if d = CHR 0x27 then a @ getSubstitution m b a r
         else c # getSubstitution m b a (d # r))
      else c # getSubstitution m b a (d # r))"

text \<open>
  \<^verbatim>\<open>str.replace(/pat/g, repl)\<close> for a regular expression that is a literal, non-empty text
  \<^verbatim>\<open>pat\<close>: the matches are the leftmost occurrences that do not overlap, each replaced by
  its substitution. The third argument is the part of the string already scanned.
\<close>

function replace_global :: "string \<Rightarrow> string \<Rightarrow> string \<Rightarrow> string \<Rightarrow> string" where
  "replace_global pat repl pre [] = []"
| "replace_global pat repl pre (c # cs) =
     (if pat \<noteq> [] \<and> take (length pat) (c # cs) = pat
      then getSubstitution pat pre (drop (length pat - 1) cs) repl
             @ replace_global pat repl (pre @ pat) (drop (length pat - 1) cs)
      else c # replace_global pat repl (pre @ [c]) cs)"
  by pat_completeness auto
termination
  by (relation "measure (\<lambda>(pat, repl, pre, s). length s)") auto

text \<open>
  The substitution the specification describes: every occurrence of the placeholder is
  replaced by the name itself, and nothing else changes.
\<close>

function substitute_literal :: "string \<Rightarrow> string \<Rightarrow> string \<Rightarrow> string" where
  "substitute_literal pat n [] = []"
| "substitute_literal pat n (c # cs) =
     (if pat \<noteq> [] \<and> take (length pat) (c # cs) = pat
      then n @ substitute_literal pat n (drop (length pat - 1) cs)
      else c # substitute_literal pat n cs)"
  by pat_completeness auto
termination
  by (relation "measure (\<lambda>(pat, n, s). length s)") auto

section \<open>The skeleton content module\<close>

definition anchorTomlContent :: string where
  \<open>anchorTomlContent = concat
    [''[programs.localnet]\<newline>'',
     ''{folderName} = "replace_with_actual_program_id"\<newline>'',
     ''\<newline>'',
     ''[provider]\<newline>'',
     ''cluster = "localnet"\<newline>'',
     ''wallet = "~/.config/solana/id.json"\<newline>'',
     ''\<newline>'',
     ''[scripts]\<newline>'',
     ''test = "anchor test --skip-build"\<newline>'',
     ''\<newline>'',
     ''[idl]\<newline>'',
     ''format = "json"\<newline>'']\<close>

definition cargoTomlContent :: string where
  \<open>cargoTomlContent = concat
    [''[package]\<newline>'',
     ''name = "{folderName}"\<newline>'',
     ''version = "0.1.0"\<newline>'',
     ''edition = "2021"\<newline>'',
     ''\<newline>'',
     ''[dependencies]\<newline>'',
     ''anchor-lang = "0.28.0"\<newline>'',
     ''solana-program = "1.11.0"\<newline>'',
     ''\<newline>'',
     ''[lib]\<newline>'',
     ''crate-type = ["cdylib", "lib"]\<newline>'',
     ''\<newline>'',
     ''[features]\<newline>'',
     ''no-entrypoint = []\<newline>'']\<close>

definition programRsContent :: string where
  \<open>programRsContent = concat
    [''use anchor_lang::prelude::*;\<newline>'',
     ''\<newline>'',
     ''declare_id!("replace_with_actual_program_id");\<newline>'',
     ''\<newline>'',
     ''#[program]\<newline>'',
     ''pub mod {folderName} {\<newline>'',
     ''    use super::*;\<newline>'',
     ''\<newline>'',
     ''    pub fn initialize(ctx: Context<Initialize>) -> Result<()> {\<newline>'',
     ''        let base_account = &mut ctx.accounts.base_account;\<newline>'',
     ''        base_account.data = 0;\<newline>'',
     ''        Ok(())\<newline>'',
     ''    }\<newline>'',
     ''\<newline>'',
     ''    pub fn increment(ctx: Context<Increment>) -> Result<()> {\<newline>'',
     ''        let base_account = &mut ctx.accounts.base_account;\<newline>'',
     ''        base_account.data += 1;\<newline>'',
     ''        Ok(())\<newline>'',
     ''    }\<newline>'',
     ''}\<newline>'',
     ''\<newline>'',
     ''#[derive(Accounts)]\<newline>'',
     ''pub struct Initialize<\'info> {\<newline>'',
     ''    #[account(init, payer = user, space = 8 + 8)]\<newline>'',
     ''    pub base_account: Account<\'info, BaseAccount>,\<newline>'',
     ''    #[account(mut)]\<newline>'',
     ''    pub user: Signer<\'info>,\<newline>'',
     ''    pub system_program: Program<\'info, System>,\<newline>'',
     ''}\<newline>'',
     ''\<newline>'',
     ''#[derive(Accounts)]\<newline>'',
     ''pub struct Increment<\'info> {\<newline>'',
     ''    #[account(mut)]\<newline>'',
     ''    pub base_account: Account<\'info, BaseAccount>,\<newline>'',
     ''}\<newline>'',
     ''\<newline>'',
     ''#[account]\<newline>'',
     ''pub struct BaseAccount {\<newline>'',
     ''    pub data: u64;\<newline>'',
     ''}\<newline>'']\<close>

definition testTsContent :: string where
  \<open>testTsContent = concat
    [''import * as anchor from "@coral-xyz/anchor";\<newline>'',
     ''import { Program } from "@coral-xyz/anchor";\<newline>'',
     ''import { {folderName} } from "../target/types/{folderName}";\<newline>'',
     ''import { assert } from "chai";\<newline>'',
     ''\<newline>'',
     ''describe("{folderName} program", () => {\<newline>'',
     ''  const provider = anchor.AnchorProvider.env();\<newline>'',
     ''  anchor.setProvider(provider);\<newline>'',
     ''  const program = anchor.workspace.{folderName} as Program<{folderName}>;\<newline>'',
     ''\<newline>'',
     ''  let baseAccount = anchor.web3.Keypair.generate();\<newline>'',
     ''\<newline>'',
     ''  it("Initializes the account", async () => {\<newline>'',
     ''    await program.methods.initialize().accounts({\<newline>'',
     ''      baseAccount: baseAccount.publicKey,\<newline>'',
     ''      user: provider.wallet.publicKey,\<newline>'',
     ''      systemProgram: anchor.web3.SystemProgram.programId,\<newline>'',
     ''    }).signers([baseAccount]).rpc();\<newline>'',
     ''\<newline>'',
     ''    const account = await program.account.baseAccount.fetch(baseAccount.publicKey);\<newline>'',
     ''    assert.equal(account.data.toNumber(), 0);\<newline>'',
     ''  });\<newline>'',
     ''\<newline>'',
     ''  it("Increments the account data", async () => {\<newline>'',
     ''    await program.methods.increment().accounts({\<newline>'',
     ''      baseAccount: baseAccount.publicKey,\<newline>'',
     ''    }).rpc();\<newline>'',
     ''\<newline>'',
     ''    const account = await program.account.baseAccount.fetch(baseAccount.publicKey);\<newline>'',
     ''    assert.equal(account.data.toNumber(), 1);\<newline>'',
     ''  });\<newline>'',
     ''});\<newline>'']\<close>

text \<open>
  The four contents \<^verbatim>\<open>doCreateContract\<close> computes:
  \<^verbatim>\<open>anchorTomlContent.replace(/{folderName}/g, folderName)\<close> and its three siblings.
\<close>

definition placeholder :: string where
  "placeholder = ''{folderName}''"

definition anchorToml :: "string \<Rightarrow> string" where
  "anchorToml folderName = replace_global placeholder folderName [] anchorTomlContent"

definition cargoToml :: "string \<Rightarrow> string" where
  "cargoToml folderName = replace_global placeholder folderName [] cargoTomlContent"

definition programRs :: "string \<Rightarrow> string" where
  "programRs folderName = replace_global placeholder folderName [] programRsContent"

definition testTs :: "string \<Rightarrow> string" where
  "testTs folderName = replace_global placeholder folderName [] testTsContent"

section \<open>The host framework\<close>

text \<open>
  The widget and the workspace contribution call into the IDE framework. Its URI class,
  label provider, localisation and workspace file service are taken as parameters: total
  functions over an abstract type \<^typ>\<open>'u\<close> of URIs, collected in the record \<open>lib\<close>.
\<close>

record 'u lib =
  uri_new :: "string \<Rightarrow> 'u"
  uri_resolve :: "'u \<Rightarrow> string \<Rightarrow> 'u"
  uri_parent :: "'u \<Rightarrow> 'u"
  uri_isEqual :: "'u \<Rightarrow> 'u \<Rightarrow> bool"
  uri_toString :: "'u \<Rightarrow> string"
  uri_displayName :: "'u \<Rightarrow> string"
  uri_path_base :: "'u \<Rightarrow> string"
  uri_path_toString :: "'u \<Rightarrow> string"
  uri_path_fsPath :: "'u \<Rightarrow> string"
  labelProvider_getLongName :: "'u \<Rightarrow> string"
  Path_tildify :: "string \<Rightarrow> string \<Rightarrow> string"
  nls_localizeByDefault :: "string \<Rightarrow> string list \<Rightarrow> string"
  getWorkspaceFileExtensions :: "string list"
  defaultFileTypeIndex :: nat

record 'u FileStat =
  resource :: 'u
  isDirectory :: bool
  isFile :: bool

datatype 'u MaybeArray = Single 'u | Array "'u list"

text \<open>A thrown value: a rejection of a host service, or a \<^verbatim>\<open>TypeError\<close> of the language.\<close>

datatype error = Error string | TypeError string

text \<open>
  The three commands of \<^verbatim>\<open>registerCommands\<close> that the widget executes, with the arguments
  their handlers declare: \<^verbatim>\<open>(targetDirectory, folderName, uri)\<close>,
  \<^verbatim>\<open>(targetDirectory, fileName, content, uri)\<close> and \<^verbatim>\<open>(folderLink)\<close>.
\<close>

datatype 'u command =
    NEW_CONTRACT_FOLDER "string option" "string option" "'u option"
  | NEW_CONTRACT_FILE "string option" string string "'u option"
  | OPEN_SMART_CONTRACT string

datatype 'u logged = Str string | Uri "'u option" | Uris "'u MaybeArray option" | Err error

text \<open>
  Every call that leaves the program is recorded, in order, as an event; the event of an
  awaited service call carries what the service answered (\<^term>\<open>Inl\<close> a rejection).
\<close>

datatype 'u event =
    FileService_resolve "'u option" "error + 'u FileStat"
  | FileService_createFolder 'u "error + 'u FileStat"
  | FileService_createFile 'u string "bool option" "error + 'u FileStat"
  | FileService_exists 'u "error + bool"
  | FireCreateNewFile "'u option" 'u
  | Console_log "'u logged list"
  | Console_warn "'u logged list"
  | Console_error "'u logged list"
  | ExecuteCommand "'u command"
  | WorkspaceService_roots "error + 'u FileStat list"
  | WorkspaceService_getUntitledWorkspace "error + 'u"
  | WorkspaceService_open 'u
  | WorkspaceService_save 'u "error + unit"
  | FileDialogService_showOpenDialog "'u FileStat option" "error + 'u MaybeArray option"
  | FileDialogService_showSaveDialog "error + 'u option"
  | SaveService_confirmOverwrite 'u "error + bool"
  | MessageService_error string

text \<open>
  The asynchronous services, over an abstract state \<^typ>\<open>'w\<close> of the world (the disk, the
  user at the dialogs, the opened workspace). Each answers with a value or rejects.
  The third argument of \<open>fileService_createFile\<close> is the \<^verbatim>\<open>overwrite\<close> option, \<^term>\<open>None\<close>
  when no options are passed. \<open>workspaceService_open\<close> returns nothing and is not awaited.
\<close>

record ('u, 'w) host = "'u lib" +
  fileService_resolve :: "'u option \<Rightarrow> 'w \<Rightarrow> (error + 'u FileStat) \<times> 'w"
  fileService_createFolder :: "'u \<Rightarrow> 'w \<Rightarrow> (error + 'u FileStat) \<times> 'w"
  fileService_createFile :: "'u \<Rightarrow> string \<Rightarrow> bool option \<Rightarrow> 'w \<Rightarrow> (error + 'u FileStat) \<times> 'w"
  fileService_exists :: "'u \<Rightarrow> 'w \<Rightarrow> (error + bool) \<times> 'w"
  workspaceService_workspace :: "'w \<Rightarrow> 'u FileStat option"
  workspaceService_roots :: "'w \<Rightarrow> (error + 'u FileStat list) \<times> 'w"
  workspaceService_getUntitledWorkspace :: "'w \<Rightarrow> (error + 'u) \<times> 'w"
  workspaceService_open :: "'u \<Rightarrow> 'w \<Rightarrow> 'w"
  workspaceService_save :: "'u \<Rightarrow> 'w \<Rightarrow> (error + unit) \<times> 'w"
  fileDialogService_showOpenDialog :: "'u FileStat option \<Rightarrow> 'w \<Rightarrow> (error + 'u MaybeArray option) \<times> 'w"
  fileDialogService_showSaveDialog :: "'w \<Rightarrow> (error + 'u option) \<times> 'w"
  saveService_confirmOverwrite :: "'u \<Rightarrow> 'w \<Rightarrow> (error + bool) \<times> 'w"

section \<open>Asynchronous code as state passing\<close>

text \<open>
  An \<^verbatim>\<open>async\<close> function is a function of the state (the events so far and the world) that
  returns a value or a thrown error, and the new state. \<open>io_bind\<close> is \<^verbatim>\<open>await\<close> followed by
  the rest of the body, \<open>io_catch\<close> is \<^verbatim>\<open>try { ... } catch (e) { ... }\<close>.
\<close>

type_synonym ('u, 'w) state = "'u event list \<times> 'w"

type_synonym ('u, 'w, 'a) io = "('u, 'w) state \<Rightarrow> (error + 'a) \<times> ('u, 'w) state"

definition io_return :: "'a \<Rightarrow> ('u, 'w, 'a) io" where
  "io_return x = (\<lambda>s. (Inr x, s))"

definition io_throw :: "error \<Rightarrow> ('u, 'w, 'a) io" where
  "io_throw e = (\<lambda>s. (Inl e, s))"

definition io_bind :: "('u, 'w, 'a) io \<Rightarrow> ('a \<Rightarrow> ('u, 'w, 'b) io) \<Rightarrow> ('u, 'w, 'b) io" where
  "io_bind m f = (\<lambda>s. case m s of (Inl e, s') \<Rightarrow> (Inl e, s') | (Inr x, s') \<Rightarrow> f x s')"

definition io_catch :: "('u, 'w, 'a) io \<Rightarrow> (error \<Rightarrow> ('u, 'w, 'a) io) \<Rightarrow> ('u, 'w, 'a) io" where
  "io_catch m handler = (\<lambda>s. case m s of (Inl e, s') \<Rightarrow> handler e s' | (Inr x, s') \<Rightarrow> (Inr x, s'))"

definition emit :: "'u event \<Rightarrow> ('u, 'w, unit) io" where
  "emit ev = (\<lambda>(tr, w). (Inr (), (tr @ [ev], w)))"

definition await :: "(error + 'a \<Rightarrow> 'u event) \<Rightarrow> ('w \<Rightarrow> (error + 'a) \<times> 'w) \<Rightarrow> ('u, 'w, 'a) io" where
  "await ev f = (\<lambda>(tr, w). case f w of (r, w') \<Rightarrow> (r, (tr @ [ev r], w')))"

text \<open>
  \<^verbatim>\<open>Promise.all\<close> over calls started in the order of the array: every call is made, also
  after one has rejected; the result is the list of values, or the rejection of the first
  call in the array that rejected.
\<close>

fun Promise_all :: "('u, 'w, 'a) io list \<Rightarrow> ('u, 'w, 'a list) io" where
  "Promise_all [] = io_return []"
| "Promise_all (m # ms) =
     (\<lambda>s. case m s of (r, s') \<Rightarrow>
        (case Promise_all ms s' of (rs, s'') \<Rightarrow>
           ((case r of Inl e \<Rightarrow> Inl e
             | Inr x \<Rightarrow> (case rs of Inl e \<Rightarrow> Inl e | Inr xs \<Rightarrow> Inr (x # xs))), s'')))"

section \<open>More built-ins: URI encoding, sets, JSON\<close>

text \<open>
  \<^verbatim>\<open>encodeURIComponent\<close>: the unreserved characters stand for themselves, every other code
  unit for the bytes of its UTF-8 encoding, each written \<^verbatim>\<open>%XX\<close> in upper-case hexadecimal.
\<close>

definition hexDigit :: "nat \<Rightarrow> char" where
  "hexDigit n = ''0123456789ABCDEF'' ! (n mod 16)"

definition percentByte :: "nat \<Rightarrow> string" where
  "percentByte b = [CHR ''%'', hexDigit (b div 16), hexDigit b]"

definition uriUnreserved :: "char \<Rightarrow> bool" where
  \<open>uriUnreserved c = (c \<in> set ''ABCDEFGHIJKLMNOPQRSTUVWXYZabcdefghijklmnopqrstuvwxyz0123456789-_.!~*\'()'')\<close>

definition encodeChar :: "char \<Rightarrow> string" where
  "encodeChar c =
     (if uriUnreserved c then [c]
      else if (of_char c :: nat) < 128 then percentByte (of_char c)
      else percentByte (192 + of_char c div 64) @ percentByte (128 + of_char c mod 64))"

definition encodeURIComponent :: "string \<Rightarrow> string" where
  "encodeURIComponent s = concat (map encodeChar s)"

text \<open>\<^verbatim>\<open>`file:///${encodeURIComponent(dir.replace(/\\/g, '/'))}`\<close>, as the three handlers build it.\<close>

definition fileUriString :: "string \<Rightarrow> string" where
  "fileUriString dir = ''file:///'' @ encodeURIComponent (replace_global [CHR 0x5C] ''/'' [] dir)"

text \<open>
  \<^verbatim>\<open>Array.from(new Set(xs))\<close>: a set keeps its elements in the order they were first added.
\<close>

definition Set_add :: "'a list \<Rightarrow> 'a \<Rightarrow> 'a list" where
  "Set_add acc x = (if x \<in> set acc then acc else acc @ [x])"

definition Array_from_Set :: "'a list \<Rightarrow> 'a list" where
  "Array_from_Set xs = foldl Set_add [] xs"

text \<open>The position of the first occurrence of a value in a list.\<close>

definition first_index :: "'a list \<Rightarrow> 'a \<Rightarrow> nat" where
  "first_index xs x = length (takeWhile (\<lambda>y. y \<noteq> x) xs)"

text \<open>
  \<^verbatim>\<open>JSON.stringify(value, null, space)\<close> on objects, arrays and strings, after
  \<^verbatim>\<open>SerializeJSONProperty\<close> of ECMAScript: \<open>gap\<close> is the indentation unit, \<open>ind\<close> the current
  indentation.
\<close>

datatype json = JString string | JArray "json list" | JObject "(string \<times> json) list"

fun join :: "string \<Rightarrow> string list \<Rightarrow> string" where
  "join sep [] = []"
| "join sep [x] = x"
| "join sep (x # y # ys) = x @ sep @ join sep (y # ys)"

definition hex4 :: "nat \<Rightarrow> string" where
  "hex4 n = map (\<lambda>d. ''0123456789abcdef'' ! d) [n div 4096 mod 16, n div 256 mod 16, n div 16 mod 16, n mod 16]"

definition quoteChar :: "char \<Rightarrow> string" where
  "quoteChar c =
     (if c = CHR 0x08 then [CHR 0x5C, CHR ''b'']
      else if c = CHR 0x09 then [CHR 0x5C, CHR ''t'']
      else if c = CHR 0x0A then [CHR 0x5C, CHR ''n'']
      else if c = CHR 0x0C then [CHR 0x5C, CHR ''f'']
      else if c = CHR 0x0D then [CHR 0x5C, CHR ''r'']
      else if c = CHR 0x22 then [CHR 0x5C, CHR 0x22]
      else if c = CHR 0x5C then [CHR 0x5C, CHR 0x5C]
      else if (of_char c :: nat) < 32 then [CHR 0x5C, CHR ''u''] @ hex4 (of_char c)
      else [c])"

definition quoteJSONString :: "string \<Rightarrow> string" where
  "quoteJSONString s = [CHR 0x22] @ concat (map quoteChar s) @ [CHR 0x22]"

definition wrapJSON :: "string \<Rightarrow> string \<Rightarrow> string \<Rightarrow> string \<Rightarrow> string list \<Rightarrow> string" where
  "wrapJSON gap ind left right partial =
     (if partial = [] then left @ right
      else if gap = [] then left @ join '','' partial @ right
      else left @ [CHR 0x0A] @ (ind @ gap) @ join ('','' @ [CHR 0x0A] @ (ind @ gap)) partial
             @ [CHR 0x0A] @ ind @ right)"

fun serializeJSON :: "string \<Rightarrow> string \<Rightarrow> json \<Rightarrow> string" where
  "serializeJSON gap ind (JString s) = quoteJSONString s"
| "serializeJSON gap ind (JArray xs) =
     wrapJSON gap ind ''['' '']'' (map (serializeJSON gap (ind @ gap)) xs)"
| "serializeJSON gap ind (JObject kvs) =
     wrapJSON gap ind ''{'' ''}''
       (map (\<lambda>kv. quoteJSONString (fst kv) @ '':'' @ (if gap = [] then [] else '' '')
                     @ serializeJSON gap (ind @ gap) (snd kv)) kvs)"

definition JSON_stringify :: "json \<Rightarrow> nat \<Rightarrow> string" where
  "JSON_stringify v space = serializeJSON (replicate (min 10 space) CHR '' '') [] v"

text \<open>
  The text the specification describes for the workspace file: an object with the one
  property \<^verbatim>\<open>folders\<close>, an array of objects with the one property \<^verbatim>\<open>path\<close>, indented by four
  spaces per level.
\<close>

definition workspaceFileText :: "string list \<Rightarrow> string" where
  \<open>workspaceFileText paths =
     ''{\<newline>'' @
     ''    "folders": '' @
     (if paths = [] then ''[]''
      else ''[\<newline>'' @
           join '',\<newline>''
             (map (\<lambda>p. ''        {\<newline>'' @
                        ''            "path": '' @ quoteJSONString p @ ''\<newline>'' @
                        ''        }'') paths) @
           ''\<newline>    ]'') @
     ''\<newline>}''\<close>

section \<open>The workspace contribution\<close>

subsection \<open>Directory resolution\<close>

text \<open>
  \<^verbatim>\<open>getParent\<close> and \<^verbatim>\<open>getDirectory\<close>. The candidate is \<^term>\<open>None\<close> when a handler received
  neither a target directory nor a URI; reading \<^verbatim>\<open>candidate.parent\<close> then throws inside the
  \<^verbatim>\<open>try\<close>.
\<close>

definition getParent :: "('u, 'w) host \<Rightarrow> 'u option \<Rightarrow> ('u, 'w, 'u FileStat option) io" where
  "getParent h candidate =
     io_catch
       (case candidate of
          None \<Rightarrow> io_throw (TypeError ''Cannot read properties of undefined'')
        | Some c \<Rightarrow>
            io_bind (await (FileService_resolve (Some (uri_parent h c)))
                       (fileService_resolve h (Some (uri_parent h c))))
              (\<lambda>stat. io_return (Some stat)))
       (\<lambda>e. io_return None)"

definition getDirectory :: "('u, 'w) host \<Rightarrow> 'u option \<Rightarrow> ('u, 'w, 'u FileStat option) io" where
  "getDirectory h candidate =
     io_bind
       (io_catch
          (io_bind (await (FileService_resolve candidate) (fileService_resolve h candidate))
             (\<lambda>stat. io_return (Some stat)))
          (\<lambda>e. io_return None))
       (\<lambda>stat. case stat of
          None \<Rightarrow> getParent h candidate
        | Some st \<Rightarrow> if isDirectory st then io_return (Some st) else getParent h candidate)"

subsection \<open>The handlers of the contract commands\<close>

text \<open>
  The parent URI both handlers compute first:
  \<^verbatim>\<open>targetDirectory ? new URI(`file:///${encodeURIComponent(...)}`) : uri\<close>.
\<close>

definition parentUriOf :: "('u, 'w) host \<Rightarrow> string option \<Rightarrow> 'u option \<Rightarrow> 'u option" where
  "parentUriOf h targetDirectory uri =
     (if truthy targetDirectory then Some (uri_new h (fileUriString (the targetDirectory))) else uri)"

definition new_contract_folder ::
  "('u, 'w) host \<Rightarrow> string option \<Rightarrow> string option \<Rightarrow> 'u option \<Rightarrow> ('u, 'w, unit) io" where
  "new_contract_folder h targetDirectory folderName uri =
     io_catch
       (let parentUri = parentUriOf h targetDirectory uri in
        io_bind (getDirectory h parentUri) (\<lambda>parent.
          case parent of
            Some p \<Rightarrow>
              (let folderUri = uri_resolve h (resource p)
                                 (if truthy folderName then the folderName else ''Untitled'') in
               io_bind (emit (Console_log [Str ''folderUri ->'', Str (uri_toString h folderUri)])) (\<lambda>_.
               io_bind (await (FileService_createFolder folderUri)
                          (fileService_createFolder h folderUri)) (\<lambda>_.
               io_bind (emit (FireCreateNewFile parentUri folderUri)) (\<lambda>_.
               emit (Console_log [Str ''Folder successfully created at:'',
                                  Str (uri_toString h folderUri)])))))
          | None \<Rightarrow>
              emit (Console_warn [Str ''Parent directory could not be found or is invalid.''])))
       (\<lambda>e. emit (Console_error [Str ''Error creating folder:'', Err e]))"

definition new_contract_file ::
  "('u, 'w) host \<Rightarrow> string option \<Rightarrow> string \<Rightarrow> string \<Rightarrow> 'u option \<Rightarrow> ('u, 'w, unit) io" where
  "new_contract_file h targetDirectory fileName content uri =
     io_catch
       (let parentUri = parentUriOf h targetDirectory uri in
        io_bind (emit (Console_log [Str ''targetDirectory ->'',
                                    Str (case targetDirectory of None \<Rightarrow> ''undefined'' | Some d \<Rightarrow> d)])) (\<lambda>_.
        io_bind (case parentUri of
                   None \<Rightarrow> io_throw (TypeError ''Cannot read properties of undefined'')
                 | Some pu \<Rightarrow> emit (Console_log [Str ''parentUri ->'', Str (uri_toString h pu)])) (\<lambda>_.
        io_bind (emit (Console_log [Str ''fileName ->'', Str fileName])) (\<lambda>_.
        io_bind (getDirectory h parentUri) (\<lambda>parent.
          case parent of
            Some p \<Rightarrow>
              (let fileUri = uri_resolve h (resource p) fileName in
               io_bind (emit (Console_log [Str ''fileUri ->'', Str (uri_toString h fileUri)])) (\<lambda>_.
               io_bind (await (FileService_createFile fileUri content None)
                          (fileService_createFile h fileUri content None)) (\<lambda>_.
               io_bind (emit (FireCreateNewFile parentUri fileUri)) (\<lambda>_.
               emit (Console_log [Str ''File successfully created at:'',
                                  Str (uri_toString h fileUri)])))))
          | None \<Rightarrow>
              emit (Console_warn [Str ''Parent directory could not be found or is invalid.'']))))))
       (\<lambda>e. emit (Console_error [Str ''Error creating file:'', Err e]))"

subsection \<open>Opening folders and synthesising a multi-root workspace\<close>

definition createMultiRootWorkspace :: "('u, 'w) host \<Rightarrow> 'u FileStat list \<Rightarrow> ('u, 'w, 'u) io" where
  "createMultiRootWorkspace h roots =
     io_bind (await WorkspaceService_getUntitledWorkspace (workspaceService_getUntitledWorkspace h))
       (\<lambda>untitledWorkspace.
          let folders = map (\<lambda>path. JObject [(''path'', JString path)])
                          (Array_from_Set (map (\<lambda>stat. uri_path_toString h (resource stat)) roots));
              content = JSON_stringify (JObject [(''folders'', JArray folders)]) 4
          in io_bind (await (FileService_createFile untitledWorkspace content (Some True))
                        (fileService_createFile h untitledWorkspace content (Some True)))
               (\<lambda>workspaceStat. io_return (resource workspaceStat)))"

text \<open>\<^verbatim>\<open>Promise.all(uris.map(uri => this.fileService.resolve(uri)))\<close>.\<close>

definition resolveAll :: "('u, 'w) host \<Rightarrow> 'u list \<Rightarrow> ('u, 'w, 'u FileStat list) io" where
  "resolveAll h uris =
     Promise_all (map (\<lambda>uri. await (FileService_resolve (Some uri)) (fileService_resolve h (Some uri))) uris)"

definition getOpenableWorkspaceUri :: "('u, 'w) host \<Rightarrow> 'u MaybeArray \<Rightarrow> ('u, 'w, 'u option) io" where
  "getOpenableWorkspaceUri h uris =
     (case uris of
        Array us \<Rightarrow>
          if length us < 2 then io_return (case us of [] \<Rightarrow> None | u # _ \<Rightarrow> Some u)
          else io_bind (resolveAll h us) (\<lambda>stats.
                 let foldersToOpen = filter isDirectory stats in
                 if length foldersToOpen = 1 then io_return (Some (resource (foldersToOpen ! 0)))
                 else io_bind (createMultiRootWorkspace h foldersToOpen) (\<lambda>u. io_return (Some u)))
      | Single u \<Rightarrow> io_return (Some u))"

text \<open>
  The common tail of \<^verbatim>\<open>doOpenFolder\<close> and \<^verbatim>\<open>doOpenSmartContract\<close>, which the source writes
  out twice: open the URI and return it unless it equals the current workspace's.
\<close>

definition openUnlessCurrent :: "('u, 'w) host \<Rightarrow> 'u option \<Rightarrow> ('u, 'w, 'u option) io" where
  "openUnlessCurrent h openableUri =
     (\<lambda>(tr, w).
        case openableUri of
          None \<Rightarrow> (Inr None, (tr, w))
        | Some ou \<Rightarrow>
            (if (case workspaceService_workspace h w of
                   None \<Rightarrow> True
                 | Some ws \<Rightarrow> \<not> uri_isEqual h ou (resource ws))
             then (Inr (Some ou), (tr @ [WorkspaceService_open ou], workspaceService_open h ou w))
             else (Inr None, (tr, w))))"

definition doOpenFolder :: "('u, 'w) host \<Rightarrow> ('u, 'w, 'u option) io" where
  "doOpenFolder h =
     io_bind (await WorkspaceService_roots (workspaceService_roots h)) (\<lambda>roots.
       let rootStat = (case roots of [] \<Rightarrow> None | r # _ \<Rightarrow> Some r) in
       io_bind (await (FileDialogService_showOpenDialog rootStat)
                  (fileDialogService_showOpenDialog h rootStat)) (\<lambda>targetFolders.
       io_bind (emit (Console_log [Uris targetFolders])) (\<lambda>_.
         case targetFolders of
           None \<Rightarrow> io_return None
         | Some tf \<Rightarrow>
             io_bind (getOpenableWorkspaceUri h tf) (\<lambda>openableUri.
             io_bind (emit (Console_log [Uri openableUri])) (\<lambda>_.
               openUnlessCurrent h openableUri)))))"

definition doOpenSmartContract :: "('u, 'w) host \<Rightarrow> string \<Rightarrow> ('u, 'w, 'u option) io" where
  "doOpenSmartContract h folderLink =
     (let targetFolderUri = uri_new h (fileUriString folderLink) in
      io_bind (emit (Console_log [Uri (Some targetFolderUri)])) (\<lambda>_.
      io_bind (getOpenableWorkspaceUri h (Array [targetFolderUri])) (\<lambda>openableUri.
      io_bind (emit (Console_log [Uri openableUri])) (\<lambda>_.
        openUnlessCurrent h openableUri))))"

text \<open>
  The command registry, for the three commands above: \<^verbatim>\<open>executeCommand\<close> runs the handler
  that \<^verbatim>\<open>registerCommands\<close> registered (each is enabled unconditionally) and awaits it.
\<close>

definition commandRegistry_executeCommand :: "('u, 'w) host \<Rightarrow> 'u command \<Rightarrow> ('u, 'w, unit) io" where
  "commandRegistry_executeCommand h cmd =
     io_bind (emit (ExecuteCommand cmd)) (\<lambda>_.
       case cmd of
         NEW_CONTRACT_FOLDER targetDirectory folderName uri \<Rightarrow>
           new_contract_folder h targetDirectory folderName uri
       | NEW_CONTRACT_FILE targetDirectory fileName content uri \<Rightarrow>
           new_contract_file h targetDirectory fileName content uri
       | OPEN_SMART_CONTRACT folderLink \<Rightarrow>
           io_bind (doOpenSmartContract h folderLink) (\<lambda>_. io_return ()))"

subsection \<open>Save workspace as\<close>

definition endsWith :: "string \<Rightarrow> string \<Rightarrow> bool" where
  "endsWith s ext = (length ext \<le> length s \<and> drop (length s - length ext) s = ext)"

text \<open>
  The URI the loop goes on with after the dialog returned \<open>selected\<close>: the default extension
  is appended when the display name ends with none of the workspace extensions. Indexing
  the extensions out of range gives \<^verbatim>\<open>undefined\<close>, which the template string prints.
\<close>

definition withWorkspaceExtension :: "('u, 'w) host \<Rightarrow> 'u \<Rightarrow> 'u" where
  "withWorkspaceExtension h selected =
     (let displayName = uri_displayName h selected;
          extensions = getWorkspaceFileExtensions h
      in if \<not> list_ex (\<lambda>ext. endsWith displayName ext) extensions
         then (let defaultExtension =
                     (if defaultFileTypeIndex h < length extensions
                      then extensions ! defaultFileTypeIndex h else ''undefined'')
               in uri_resolve h (uri_parent h selected) (displayName @ defaultExtension))
         else selected)"

text \<open>
  The \<^verbatim>\<open>do ... while (selected && exist && !overwrite)\<close> loop; its result is the final value
  of \<open>selected\<close>. The loop need not end: the result is \<^term>\<open>None\<close> when it does not.
\<close>

partial_function (option) saveWorkspaceAs_loop ::
  "('u, 'w) host \<Rightarrow> bool \<Rightarrow> bool \<Rightarrow> ('u, 'w) state \<Rightarrow> ((error + 'u option) \<times> ('u, 'w) state) option" where
  "saveWorkspaceAs_loop h exist overwrite s =
     (case await FileDialogService_showSaveDialog (fileDialogService_showSaveDialog h) s of
        (Inl e, s1) \<Rightarrow> Some (Inl e, s1)
      | (Inr None, s1) \<Rightarrow> Some (Inr None, s1)
      | (Inr (Some sel), s1) \<Rightarrow>
          (let selected = withWorkspaceExtension h sel in
           case await (FileService_exists selected) (fileService_exists h selected) s1 of
             (Inl e, s2) \<Rightarrow> Some (Inl e, s2)
           | (Inr exist', s2) \<Rightarrow>
               (if exist' then
                  (case await (SaveService_confirmOverwrite selected)
                          (saveService_confirmOverwrite h selected) s2 of
                     (Inl e, s3) \<Rightarrow> Some (Inl e, s3)
                   | (Inr overwrite', s3) \<Rightarrow>
                       if exist' \<and> \<not> overwrite' then saveWorkspaceAs_loop h exist' overwrite' s3
                       else Some (Inr (Some selected), s3))
                else if exist' \<and> \<not> overwrite then saveWorkspaceAs_loop h exist' overwrite s2
                else Some (Inr (Some selected), s2))))"

definition saveWorkspaceAs ::
  "('u, 'w) host \<Rightarrow> ('u, 'w) state \<Rightarrow> ((error + bool) \<times> ('u, 'w) state) option" where
  \<open>saveWorkspaceAs h s =
     (case saveWorkspaceAs_loop h False False s of
        None \<Rightarrow> None
      | Some (Inl e, s1) \<Rightarrow> Some (Inl e, s1)
      | Some (Inr None, s1) \<Rightarrow> Some (Inr False, s1)
      | Some (Inr (Some selected), s1) \<Rightarrow>
          Some (io_catch
                  (io_bind (await (WorkspaceService_save selected) (workspaceService_save h selected))
                     (\<lambda>_. io_return True))
                  (\<lambda>e. io_bind (emit (MessageService_error
                                        (nls_localizeByDefault h (''Unable to save workspace \'{0}'' @ [CHR 0x27])
                                           [uri_path_fsPath h selected])))
                         (\<lambda>_. io_return False))
                  s1))\<close>

section \<open>The welcome widget\<close>

text \<open>The fields of \<^verbatim>\<open>GettingStartedWidget\<close> that the rendering and the form read.\<close>

record GettingStartedWidget =
  recentWorkspaces :: "string list"
  home :: "string option"
  projectName :: string
  blockchain :: string
  language :: string
  isDialogOpen :: bool
  path :: string

definition recentLimit :: nat where
  "recentLimit = 5"

text \<open>What a rendered link or button does when it is activated.\<close>

datatype 'u action =
    ToggleDialog
  | DoOpenFolder
  | DoOpenRecentWorkspace
  | Open 'u
  | DoCreateContract string string

subsection \<open>The recent workspaces section\<close>

text \<open>
  The children of the section below its header: a link per workspace (the URI it opens, the
  link text, the details text), the paragraph shown when there is no recent folder (with the
  action of its link), and the \<^verbatim>\<open>More...\<close> link. A child that the JSX guards with a false
  condition is not rendered.
\<close>

datatype 'u node =
    WorkspaceLink 'u string string
  | NoRecentFolders "'u action"
  | MoreLink "'u action"

definition buildPaths :: "('u, 'z) lib_scheme \<Rightarrow> GettingStartedWidget \<Rightarrow> string list \<Rightarrow> string list" where
  "buildPaths h w workspaces =
     map (\<lambda>workspace.
            let uri = uri_new h workspace;
                pathLabel = labelProvider_getLongName h uri
            in if truthy (home w) then Path_tildify h pathLabel (the (home w)) else pathLabel)
         workspaces"

definition renderRecentWorkspaces :: "('u, 'z) lib_scheme \<Rightarrow> GettingStartedWidget \<Rightarrow> 'u node list" where
  "renderRecentWorkspaces h w =
     (let items = recentWorkspaces w;
          paths = buildPaths h w items;
          content = map (\<lambda>(index, item).
                           WorkspaceLink (uri_new h (items ! index))
                             (uri_path_base h (uri_new h (items ! index))) item)
                        (enumerate 0 (take recentLimit paths));
          more = (if length paths > recentLimit then [MoreLink DoOpenRecentWorkspace] else [])
      in (if length items > 0 then content else [NoRecentFolders DoOpenFolder]) @ more)"

subsection \<open>The project configuration form\<close>

definition isCreateButtonDisabled :: "GettingStartedWidget \<Rightarrow> bool" where
  "isCreateButtonDisabled w = (falsy (projectName w) \<or> falsy (blockchain w) \<or> falsy (language w))"

record 'u button =
  disabled :: bool
  onClick :: "'u action"

definition createProjectButton :: "GettingStartedWidget \<Rightarrow> 'u button" where
  "createProjectButton w =
     \<lparr>disabled = isCreateButtonDisabled w, onClick = DoCreateContract (path w) (projectName w)\<rparr>"

text \<open>The browser dispatches no click to a disabled button.\<close>

definition click :: "'u button \<Rightarrow> 'u action option" where
  "click b = (if disabled b then None else Some (onClick b))"

subsection \<open>Scaffolding a project\<close>

text \<open>
  \<^verbatim>\<open>doCreateContract\<close>, over the \<^verbatim>\<open>executeCommand\<close> of the injected command registry and the
  value of \<^verbatim>\<open>this.blockchain\<close>: the body of its \<^verbatim>\<open>try\<close> block, and the function with the
  \<^verbatim>\<open>catch\<close> around it.
\<close>

definition doCreateContract_try ::
  "('u command \<Rightarrow> ('u, 'w, unit) io) \<Rightarrow> string \<Rightarrow> string \<Rightarrow> string \<Rightarrow> ('u, 'w, unit) io" where
  "doCreateContract_try executeCommand chain targetDirectory folderName =
     io_bind (executeCommand (NEW_CONTRACT_FOLDER (Some targetDirectory) (Some folderName) None)) (\<lambda>_.
     let projectFolderPath = targetDirectory @ ''/'' @ folderName in
     if chain = ''Solana'' then
       io_bind (executeCommand (NEW_CONTRACT_FILE (Some projectFolderPath) ''Anchor.toml''
                                  (anchorToml folderName) None)) (\<lambda>_.
       io_bind (executeCommand (NEW_CONTRACT_FILE (Some projectFolderPath) ''Cargo.toml''
                                  (cargoToml folderName) None)) (\<lambda>_.
       io_bind (executeCommand (NEW_CONTRACT_FOLDER (Some projectFolderPath) (Some ''program'') None)) (\<lambda>_.
       io_bind (executeCommand (NEW_CONTRACT_FILE (Some (projectFolderPath @ ''/program''))
                                  (folderName @ ''.rs'') (programRs folderName) None)) (\<lambda>_.
       io_bind (executeCommand (NEW_CONTRACT_FOLDER (Some projectFolderPath) (Some ''tests'') None)) (\<lambda>_.
       io_bind (executeCommand (NEW_CONTRACT_FILE (Some (projectFolderPath @ ''/tests''))
                                  (folderName @ ''.ts'') (testTs folderName) None)) (\<lambda>_.
       io_bind (emit (Console_log [Str ''Solana project structure created successfully.''])) (\<lambda>_.
       executeCommand (OPEN_SMART_CONTRACT projectFolderPath))))))))
     else io_return ())"

definition doCreateContract ::
  "('u command \<Rightarrow> ('u, 'w, unit) io) \<Rightarrow> string \<Rightarrow> string \<Rightarrow> string \<Rightarrow> ('u, 'w, unit) io" where
  "doCreateContract executeCommand chain targetDirectory folderName =
     io_catch (doCreateContract_try executeCommand chain targetDirectory folderName)
       (\<lambda>e. emit (Console_error [Str ''Error creating contract structure:'', Err e]))"

text \<open>A click on the Create Project button of the form, in a widget wired to the registry.\<close>

definition clickCreateProject :: "('u, 'w) host \<Rightarrow> GettingStartedWidget \<Rightarrow> ('u, 'w, unit) io" where
  "clickCreateProject h w =
     (case click (createProjectButton w :: 'u button) of
        Some (DoCreateContract targetDirectory folderName) \<Rightarrow>
          doCreateContract (commandRegistry_executeCommand h) (blockchain w) targetDirectory folderName
      | _ \<Rightarrow> io_return ())"

text \<open>The commands executed and the files the file service was asked to create, in a trace.\<close>

fun commands :: "'u event list \<Rightarrow> 'u command list" where
  "commands [] = []"
| "commands (ExecuteCommand c # evs) = c # commands evs"
| "commands (ev # evs) = commands evs"

fun filesCreated :: "'u event list \<Rightarrow> ('u \<times> string) list" where
  "filesCreated [] = []"
| "filesCreated (FileService_createFile u content opt r # evs) = (u, content) # filesCreated evs"
| "filesCreated (ev # evs) = filesCreated evs"

fun isWorkspaceLink :: "'u node \<Rightarrow> bool" where
  "isWorkspaceLink (WorkspaceLink u t d) = True"
| "isWorkspaceLink n = False"

fun isErrorLog :: "'u event \<Rightarrow> bool" where
  "isErrorLog (Console_error l) = True"
| "isErrorLog (Console_warn l) = True"
| "isErrorLog ev = False"

section \<open>A host in memory\<close>

text \<open>
  A small instance of the host, to run the functions on: URIs are strings, the disk is a list
  of directories and a list of files with their contents, and the user's answers at the save
  dialog and at the overwrite confirmation are read from two lists.
\<close>

record demo_world =
  dirs :: "string list"
  files :: "(string \<times> string) list"
  opened :: "string option"
  openDialog :: "string MaybeArray option"
  saveDialog :: "string option list"
  overwriteAnswers :: "bool list"
  saved :: "string list"

definition dirStat :: "string \<Rightarrow> string FileStat" where
  "dirStat u = \<lparr>resource = u, isDirectory = True, isFile = False\<rparr>"

definition fileStat :: "string \<Rightarrow> string FileStat" where
  "fileStat u = \<lparr>resource = u, isDirectory = False, isFile = True\<rparr>"

text \<open>
  A URI text \<^verbatim>\<open>file://\<close> followed by a percent-encoded path is parsed to the decoded path.
\<close>

definition hexValue :: "char \<Rightarrow> nat" where
  "hexValue c = (if (of_char c :: nat) < 58 then of_char c - 48 else of_char c - 55)"

fun percentDecode :: "string \<Rightarrow> string" where
  "percentDecode (c # a # b # r) =
     (if c = CHR ''%'' then char_of (16 * hexValue a + hexValue b) # percentDecode r
      else c # percentDecode (a # b # r))"
| "percentDecode r = r"

definition demo_uri_new :: "string \<Rightarrow> string" where
  "demo_uri_new s = percentDecode (drop 7 s)"

definition demo_parent :: "string \<Rightarrow> string" where
  "demo_parent u = rev (drop 1 (dropWhile (\<lambda>c. c \<noteq> CHR ''/'') (rev u)))"

definition demo_base :: "string \<Rightarrow> string" where
  "demo_base u = rev (takeWhile (\<lambda>c. c \<noteq> CHR ''/'') (rev u))"

definition demoHost :: "(string, demo_world) host" where
  "demoHost =
     \<lparr>uri_new = demo_uri_new,
      uri_resolve = (\<lambda>u name. u @ ''/'' @ name),
      uri_parent = demo_parent,
      uri_isEqual = (\<lambda>u v. u = v),
      uri_toString = (\<lambda>u. u),
      uri_displayName = demo_base,
      uri_path_base = demo_base,
      uri_path_toString = (\<lambda>u. u),
      uri_path_fsPath = (\<lambda>u. u),
      labelProvider_getLongName = (\<lambda>u. u),
      Path_tildify = (\<lambda>p hm. p),
      nls_localizeByDefault = (\<lambda>fmt args. fmt),
      getWorkspaceFileExtensions = [''.theia-workspace'', ''.code-workspace''],
      defaultFileTypeIndex = 0,
      fileService_resolve = (\<lambda>u w. case u of
          None \<Rightarrow> (Inl (TypeError ''resource is undefined''), w)
        | Some p \<Rightarrow> if p \<in> set (dirs w) then (Inr (dirStat p), w)
                    else if p \<in> set (map fst (files w)) then (Inr (fileStat p), w)
                    else (Inl (Error ''ENOENT''), w)),
      fileService_createFolder = (\<lambda>u w. (Inr (dirStat u), w\<lparr>dirs := dirs w @ [u]\<rparr>)),
      fileService_createFile = (\<lambda>u content opt w.
          if u \<in> set (map fst (files w)) \<and> opt \<noteq> Some True then (Inl (Error ''EEXIST''), w)
          else (Inr (fileStat u), w\<lparr>files := (u, content) # filter (\<lambda>f. fst f \<noteq> u) (files w)\<rparr>)),
      fileService_exists = (\<lambda>u w. (Inr (u \<in> set (dirs w) \<or> u \<in> set (map fst (files w))), w)),
      workspaceService_workspace = (\<lambda>w. map_option dirStat (opened w)),
      workspaceService_roots = (\<lambda>w. (Inr (case opened w of None \<Rightarrow> [] | Some u \<Rightarrow> [dirStat u]), w)),
      workspaceService_getUntitledWorkspace = (\<lambda>w. (Inr ''/tmp/Untitled.theia-workspace'', w)),
      workspaceService_open = (\<lambda>u w. w\<lparr>opened := Some u\<rparr>),
      workspaceService_save = (\<lambda>u w. (Inr (), w\<lparr>saved := saved w @ [u]\<rparr>)),
      fileDialogService_showOpenDialog = (\<lambda>root w. (Inr (openDialog w), w)),
      fileDialogService_showSaveDialog = (\<lambda>w. case saveDialog w of
          [] \<Rightarrow> (Inr None, w)
        | a # as \<Rightarrow> (Inr a, w\<lparr>saveDialog := as\<rparr>)),
      saveService_confirmOverwrite = (\<lambda>u w. case overwriteAnswers w of
          [] \<Rightarrow> (Inr False, w)
        | a # as \<Rightarrow> (Inr a, w\<lparr>overwriteAnswers := as\<rparr>))\<rparr>"

definition demo_world0 :: demo_world where
  "demo_world0 =
     \<lparr>dirs = [''/C:''], files = [], opened = None, openDialog = None,
      saveDialog = [], overwriteAnswers = [], saved = []\<rparr>"

text \<open>A disk with two folders and a file.\<close>

definition demo_world1 :: demo_world where
  "demo_world1 = demo_world0\<lparr>dirs := [''/a'', ''/b''], files := [(''/f.txt'', ''text'')]\<rparr>"

text \<open>The same host with a disk that refuses to create anything.\<close>

definition readOnlyHost :: "(string, demo_world) host" where
  "readOnlyHost =
     demoHost\<lparr>fileService_createFolder := (\<lambda>u w. (Inl (Error ''EACCES''), w)),
               fileService_createFile := (\<lambda>u content opt w. (Inl (Error ''EACCES''), w)),
               workspaceService_save := (\<lambda>u w. (Inl (Error ''EACCES''), w))\<rparr>"

text \<open>
  A disk with a saved workspace file, and a user who first picks that file at the save dialog
  and declines to overwrite it, then picks a new name without an extension.
\<close>

definition demo_world2 :: demo_world where
  "demo_world2 =
     demo_world0\<lparr>files := [(''/ws/old.theia-workspace'', ''{}'')],
                  saveDialog := [Some ''/ws/old.theia-workspace'', Some ''/ws/new''],
                  overwriteAnswers := [False]\<rparr>"

text \<open>A command registry in which no handler is registered: every command is rejected.\<close>

definition emptyRegistry :: "string command \<Rightarrow> (string, demo_world, unit) io" where
  "emptyRegistry c = io_throw (Error ''no handler'')"

definition demo_widget :: "string \<Rightarrow> string \<Rightarrow> GettingStartedWidget" where
  "demo_widget chain lang =
     \<lparr>recentWorkspaces = [], home = None, projectName = ''app'', blockchain = chain,
      language = lang, isDialogOpen = True, path = ''C:''\<rparr>"

section \<open>Properties\<close>

subsection \<open>String substitution\<close>

lemma getSubstitution_literal: "CHR ''$'' \<notin> set r \<Longrightarrow> getSubstitution m b a r = r"
  by (induction m b a r rule: getSubstitution.induct) auto

lemma replace_global_literal:
  "CHR ''$'' \<notin> set n \<Longrightarrow> replace_global pat n pre s = substitute_literal pat n s"
  by (induction pat n pre s rule: replace_global.induct) (auto simp: getSubstitution_literal)

lemma replace_backslashes:
  "replace_global [CHR 0x5C] ''/'' pre s = map (\<lambda>c. if c = CHR 0x5C then CHR ''/'' else c) s"
  by (induction "[CHR 0x5C]" "''/''" pre s rule: replace_global.induct) auto

lemma templates_literal_without_dollar:
  assumes "CHR ''$'' \<notin> set n"
  shows "anchorToml n = substitute_literal placeholder n anchorTomlContent"
    and "cargoToml n = substitute_literal placeholder n cargoTomlContent"
    and "programRs n = substitute_literal placeholder n programRsContent"
    and "testTs n = substitute_literal placeholder n testTsContent"
  using assms by (simp_all add: anchorToml_def cargoToml_def programRs_def testTs_def replace_global_literal)

text \<open>
  Claim C4: for every project name, the content of each generated file is its template with
  every occurrence of the placeholder replaced by the name, and nothing else changed. The
  code passes the name as the replacement pattern of \<^verbatim>\<open>String.prototype.replace\<close>, so a name
  with a dollar sign is not copied literally: for the name \<^verbatim>\<open>my$$app\<close> the generated
  \<^verbatim>\<open>Anchor.toml\<close> names the program \<^verbatim>\<open>my$app\<close>.
\<close>

theorem anchorToml_dollar_name:
  \<open>anchorToml ''my$$app'' \<noteq> substitute_literal placeholder ''my$$app'' anchorTomlContent
   \<and> take 26 (anchorToml ''my$$app'') = ''[programs.localnet]\<newline>my$app''
   \<and> take 27 (substitute_literal placeholder ''my$$app'' anchorTomlContent) = ''[programs.localnet]\<newline>my$$app''\<close>
  by code_simp

subsection \<open>The form and the recent workspaces\<close>

text \<open>
  Claim C8: the Create Project button is disabled exactly when the project name, the
  blockchain or the language is the empty string, so a click cannot start the create action
  with one of the three fields empty: such a click executes no command at all.
\<close>

theorem create_button_disabled_iff_field_empty:
  "disabled (createProjectButton w :: 'u button)
     = (projectName w = [] \<or> blockchain w = [] \<or> language w = [])
   \<and> click (createProjectButton w :: 'u button)
     = (if projectName w = [] \<or> blockchain w = [] \<or> language w = [] then None
        else Some (DoCreateContract (path w) (projectName w)))
   \<and> ((projectName w = [] \<or> blockchain w = [] \<or> language w = [])
        \<longrightarrow> clickCreateProject h w s = (Inr (), s))"
  by (simp add: clickCreateProject_def click_def createProjectButton_def
      isCreateButtonDisabled_def falsy_def io_return_def)

theorem create_button_disabled_iff_field_empty_witness:
  "disabled (createProjectButton (demo_widget ''Solana'' '''') :: string button)
   \<and> click (createProjectButton (demo_widget ''Solana'' '''') :: string button) = None
   \<and> clickCreateProject demoHost (demo_widget ''Solana'' '''') ([], demo_world0) = (Inr (), ([], demo_world0))
   \<and> \<not> disabled (createProjectButton (demo_widget ''Solana'' ''Anchor (Rust)'') :: string button)
   \<and> click (createProjectButton (demo_widget ''Solana'' ''Anchor (Rust)'') :: string button)
       = Some (DoCreateContract ''C:'' ''app'')"
  using create_button_disabled_iff_field_empty
          [of "demo_widget ''Solana'' ''''" demoHost "([], demo_world0)", where ?'u = string]
        create_button_disabled_iff_field_empty
          [of "demo_widget ''Solana'' ''Anchor (Rust)''" demoHost "([], demo_world0)", where ?'u = string]
  by (simp add: demo_widget_def)

text \<open>
  Claim C9: the recent section renders the first five recently used workspaces, in list
  order, and no more; the \<^verbatim>\<open>More...\<close> link is rendered exactly when the list has more than five
  entries; for an empty list the message that there are no recent folders is rendered, with
  its open-folder action.
\<close>

theorem renderRecentWorkspaces_limit:
  "renderRecentWorkspaces h w =
     (if recentWorkspaces w = [] then [NoRecentFolders DoOpenFolder]
      else map (\<lambda>ws. WorkspaceLink (uri_new h ws) (uri_path_base h (uri_new h ws))
                       (if truthy (home w)
                        then Path_tildify h (labelProvider_getLongName h (uri_new h ws)) (the (home w))
                        else labelProvider_getLongName h (uri_new h ws)))
             (take 5 (recentWorkspaces w)))
     @ (if 5 < length (recentWorkspaces w) then [MoreLink DoOpenRecentWorkspace] else [])
   \<and> filter isWorkspaceLink (renderRecentWorkspaces h w)
     = map (\<lambda>ws. WorkspaceLink (uri_new h ws) (uri_path_base h (uri_new h ws))
                      (if truthy (home w)
                       then Path_tildify h (labelProvider_getLongName h (uri_new h ws)) (the (home w))
                       else labelProvider_getLongName h (uri_new h ws)))
         (take 5 (recentWorkspaces w))
   \<and> length (filter isWorkspaceLink (renderRecentWorkspaces h w)) = min 5 (length (recentWorkspaces w))
   \<and> (MoreLink DoOpenRecentWorkspace \<in> set (renderRecentWorkspaces h w))
     = (5 < length (recentWorkspaces w))
   \<and> (NoRecentFolders DoOpenFolder \<in> set (renderRecentWorkspaces h w))
     = (recentWorkspaces w = [])"
proof -
  let ?items = "recentWorkspaces w"
  let ?label = "\<lambda>ws. if truthy (home w)
                        then Path_tildify h (labelProvider_getLongName h (uri_new h ws)) (the (home w))
                        else labelProvider_getLongName h (uri_new h ws)"
  have content:
    "map (\<lambda>(index, item). WorkspaceLink (uri_new h (?items ! index))
                             (uri_path_base h (uri_new h (?items ! index))) item)
         (enumerate 0 (take 5 (map ?label ?items)))
     = map (\<lambda>ws. WorkspaceLink (uri_new h ws) (uri_path_base h (uri_new h ws)) (?label ws))
         (take 5 ?items)"
    by (rule nth_equalityI) (auto simp: nth_enumerate_eq)
  have eq: "renderRecentWorkspaces h w =
     (if ?items = [] then [NoRecentFolders DoOpenFolder]
      else map (\<lambda>ws. WorkspaceLink (uri_new h ws) (uri_path_base h (uri_new h ws)) (?label ws))
             (take 5 ?items))
     @ (if 5 < length ?items then [MoreLink DoOpenRecentWorkspace] else [])"
    unfolding renderRecentWorkspaces_def buildPaths_def Let_def recentLimit_def
    using content by simp
  have links: "filter isWorkspaceLink
                 (map (\<lambda>ws. WorkspaceLink (uri_new h ws) (uri_path_base h (uri_new h ws)) (?label ws)) xs)
               = map (\<lambda>ws. WorkspaceLink (uri_new h ws) (uri_path_base h (uri_new h ws)) (?label ws)) xs"
    for xs by (induction xs) simp_all
  have f: "filter isWorkspaceLink (renderRecentWorkspaces h w)
           = map (\<lambda>ws. WorkspaceLink (uri_new h ws) (uri_path_base h (uri_new h ws)) (?label ws))
               (take 5 ?items)"
    unfolding eq using links by simp
  have more: "(MoreLink DoOpenRecentWorkspace \<in> set (renderRecentWorkspaces h w)) = (5 < length ?items)"
    unfolding eq by auto
  have none: "(NoRecentFolders DoOpenFolder \<in> set (renderRecentWorkspaces h w)) = (?items = [])"
    unfolding eq by auto
  have len: "length (filter isWorkspaceLink (renderRecentWorkspaces h w)) = min 5 (length ?items)"
    unfolding f by simp
  show ?thesis using eq f len more none by blast
qed

theorem renderRecentWorkspaces_limit_witness:
  "renderRecentWorkspaces demoHost
     ((demo_widget [] [])\<lparr>recentWorkspaces := [''file:///a'', ''file:///b'', ''file:///c'',
                                                 ''file:///d'', ''file:///e'', ''file:///f'']\<rparr>)
   = [WorkspaceLink ''/a'' ''a'' ''/a'', WorkspaceLink ''/b'' ''b'' ''/b'', WorkspaceLink ''/c'' ''c'' ''/c'',
      WorkspaceLink ''/d'' ''d'' ''/d'', WorkspaceLink ''/e'' ''e'' ''/e'', MoreLink DoOpenRecentWorkspace]
   \<and> renderRecentWorkspaces demoHost (demo_widget [] []) = [NoRecentFolders DoOpenFolder]"
  using renderRecentWorkspaces_limit
          [of demoHost "(demo_widget [] [])\<lparr>recentWorkspaces := [''file:///a'', ''file:///b'', ''file:///c'',
                                                 ''file:///d'', ''file:///e'', ''file:///f'']\<rparr>"]
        renderRecentWorkspaces_limit [of demoHost "demo_widget [] []"]
  by (simp add: demo_widget_def demoHost_def truthy_def demo_uri_new_def demo_base_def)


subsection \<open>The handlers and the command sequence\<close>

lemmas io_defs = io_return_def io_throw_def io_bind_def io_catch_def emit_def await_def

lemma commands_append [simp]: "commands (xs @ ys) = commands xs @ commands ys"
  by (induction xs rule: commands.induct) simp_all

lemma filesCreated_append [simp]: "filesCreated (xs @ ys) = filesCreated xs @ filesCreated ys"
  by (induction xs rule: filesCreated.induct) simp_all

lemma getParent_result:
  "\<exists>r evs w'. getParent h c (tr, w) = (Inr r, (tr @ evs, w')) \<and> commands evs = [] \<and> filesCreated evs = []"
  by (cases c; cases "fileService_resolve h (Some (uri_parent h (the c))) w";
      cases "fst (fileService_resolve h (Some (uri_parent h (the c))) w)")
     (auto simp: getParent_def io_defs)

lemma getDirectory_result:
  "\<exists>r evs w'. getDirectory h c (tr, w)
       = (Inr r, (tr @ FileService_resolve c (fst (fileService_resolve h c w)) # evs, w'))
     \<and> commands evs = [] \<and> filesCreated evs = []"
proof -
  obtain r0 w0 where r0: "fileService_resolve h c w = (r0, w0)" by (cases "fileService_resolve h c w")
  obtain r1 evs1 w1 where r1: "getParent h c (tr @ [FileService_resolve c r0], w0) = (Inr r1, ((tr @ [FileService_resolve c r0]) @ evs1, w1))"
     and e1: "commands evs1 = []" "filesCreated evs1 = []"
    using getParent_result[of h c "tr @ [FileService_resolve c r0]" w0] by blast
  show ?thesis
    using r0 r1 e1 by (cases r0) (auto simp: getDirectory_def io_defs)
qed

lemma getDirectory_directory:
  assumes "fileService_resolve h c w = (Inr st, w1)" and "isDirectory st"
  shows "getDirectory h c (tr, w) = (Inr (Some st), (tr @ [FileService_resolve c (Inr st)], w1))"
  using assms by (simp add: getDirectory_def io_defs)

lemma getDirectory_unresolved:
  assumes "fileService_resolve h (Some p) w = (Inl e, w1)"
    and "fileService_resolve h (Some (uri_parent h p)) w1 = (r, w2)"
  shows "getDirectory h (Some p) (tr, w)
         = (Inr (case r of Inl e' \<Rightarrow> None | Inr st \<Rightarrow> Some st),
            (tr @ [FileService_resolve (Some p) (Inl e), FileService_resolve (Some (uri_parent h p)) r], w2))"
  using assms by (cases r) (simp_all add: getDirectory_def getParent_def io_defs)

lemma new_contract_folder_result:
  "\<exists>evs w'. new_contract_folder h td fn uri (tr, w)
       = (Inr (), (tr @ FileService_resolve (parentUriOf h td uri)
                          (fst (fileService_resolve h (parentUriOf h td uri) w)) # evs, w'))
      \<and> commands evs = [] \<and> filesCreated evs = []"
proof -
  let ?p = "parentUriOf h td uri"
  obtain r evs0 w0 where g: "getDirectory h ?p (tr, w)
       = (Inr r, (tr @ FileService_resolve ?p (fst (fileService_resolve h ?p w)) # evs0, w0))"
     and e: "commands evs0 = []" "filesCreated evs0 = []"
    using getDirectory_result[of h ?p tr w] by blast
  show ?thesis
  proof (cases r)
    case None
    then show ?thesis using g e by (simp add: new_contract_folder_def io_defs Let_def)
  next
    case (Some p)
    let ?f = "uri_resolve h (resource p) (if truthy fn then the fn else ''Untitled'')"
    obtain r2 w2 where c: "fileService_createFolder h ?f w0 = (r2, w2)"
      by (cases "fileService_createFolder h ?f w0")
    show ?thesis using g e Some c
      by (cases r2) (simp_all add: new_contract_folder_def io_defs Let_def)
  qed
qed

lemma new_contract_folder_directory:
  assumes "fileService_resolve h (parentUriOf h td uri) w = (Inr st, w1)" and "isDirectory st"
    and "fileService_createFolder h (uri_resolve h (resource st) (if truthy fn then the fn else ''Untitled'')) w1 = (r, w2)"
  shows "new_contract_folder h td fn uri (tr, w)
         = (Inr (),
            (tr @ [FileService_resolve (parentUriOf h td uri) (Inr st),
                   Console_log [Str ''folderUri ->'',
                     Str (uri_toString h (uri_resolve h (resource st) (if truthy fn then the fn else ''Untitled'')))],
                   FileService_createFolder
                     (uri_resolve h (resource st) (if truthy fn then the fn else ''Untitled'')) r]
                @ (case r of
                     Inl e \<Rightarrow> [Console_error [Str ''Error creating folder:'', Err e]]
                   | Inr st' \<Rightarrow>
                       [FireCreateNewFile (parentUriOf h td uri)
                          (uri_resolve h (resource st) (if truthy fn then the fn else ''Untitled'')),
                        Console_log [Str ''Folder successfully created at:'',
                          Str (uri_toString h (uri_resolve h (resource st) (if truthy fn then the fn else ''Untitled'')))]]),
             w2))"
  using assms getDirectory_directory[OF assms(1,2), of tr]
  by (cases r) (simp_all add: new_contract_folder_def io_defs Let_def)

lemma new_contract_file_result:
  "\<exists>evs w'. new_contract_file h td f content uri (tr, w) = (Inr (), (tr @ evs, w'))
      \<and> commands evs = []"
proof (cases "parentUriOf h td uri")
  case None
  then show ?thesis by (simp add: new_contract_file_def io_defs Let_def)
next
  case (Some pu)
  let ?tr = "tr @ [Console_log [Str ''targetDirectory ->'', Str (case td of None \<Rightarrow> ''undefined'' | Some d \<Rightarrow> d)],
                   Console_log [Str ''parentUri ->'', Str (uri_toString h pu)],
                   Console_log [Str ''fileName ->'', Str f]]"
  obtain r evs0 w0 where g: "getDirectory h (Some pu) (?tr, w)
       = (Inr r, (?tr @ FileService_resolve (Some pu) (fst (fileService_resolve h (Some pu) w)) # evs0, w0))"
     and e: "commands evs0 = []"
    using getDirectory_result[of h "Some pu" ?tr w] by blast
  show ?thesis
  proof (cases r)
    case None
    then show ?thesis using g e Some by (simp add: new_contract_file_def io_defs Let_def)
  next
    case (Some p)
    obtain r2 w2 where c: "fileService_createFile h (uri_resolve h (resource p) f) content None w0 = (r2, w2)"
      by (cases "fileService_createFile h (uri_resolve h (resource p) f) content None w0")
    show ?thesis using g e Some c \<open>parentUriOf h td uri = Some pu\<close>
      by (cases r2) (simp_all add: new_contract_file_def io_defs Let_def)
  qed
qed

lemma new_contract_file_directory:
  assumes "parentUriOf h td uri = Some pu"
    and "fileService_resolve h (Some pu) w = (Inr st, w1)" and "isDirectory st"
    and "fileService_createFile h (uri_resolve h (resource st) f) content None w1 = (r, w2)"
  shows "new_contract_file h td f content uri (tr, w)
         = (Inr (),
            (tr @ [Console_log [Str ''targetDirectory ->'', Str (case td of None \<Rightarrow> ''undefined'' | Some d \<Rightarrow> d)],
                   Console_log [Str ''parentUri ->'', Str (uri_toString h pu)],
                   Console_log [Str ''fileName ->'', Str f],
                   FileService_resolve (Some pu) (Inr st),
                   Console_log [Str ''fileUri ->'', Str (uri_toString h (uri_resolve h (resource st) f))],
                   FileService_createFile (uri_resolve h (resource st) f) content None r]
                @ (case r of
                     Inl e \<Rightarrow> [Console_error [Str ''Error creating file:'', Err e]]
                   | Inr st' \<Rightarrow>
                       [FireCreateNewFile (Some pu) (uri_resolve h (resource st) f),
                        Console_log [Str ''File successfully created at:'',
                          Str (uri_toString h (uri_resolve h (resource st) f))]]),
             w2))"
  using assms getDirectory_directory[OF assms(2,3)]
  by (cases r) (simp_all add: new_contract_file_def io_defs Let_def)

lemma openUnlessCurrent_result:
  "\<exists>r evs w'. openUnlessCurrent h ou (tr, w) = (Inr r, (tr @ evs, w')) \<and> commands evs = [] \<and> filesCreated evs = []"
  by (cases ou; cases "workspaceService_workspace h w") (auto simp: openUnlessCurrent_def)

lemma doOpenSmartContract_result:
  "\<exists>r evs w'. doOpenSmartContract h link (tr, w) = (Inr r, (tr @ evs, w')) \<and> commands evs = [] \<and> filesCreated evs = []"
  using openUnlessCurrent_result[of h "Some (uri_new h (fileUriString link))"
          "tr @ [Console_log [Uri (Some (uri_new h (fileUriString link)))], Console_log [Uri (Some (uri_new h (fileUriString link)))]]" w]
  by (auto simp: doOpenSmartContract_def getOpenableWorkspaceUri_def io_defs Let_def)

lemma executeCommand_result:
  "\<exists>evs w'. commandRegistry_executeCommand h c (tr, w) = (Inr (), (tr @ ExecuteCommand c # evs, w'))
      \<and> commands evs = []"
proof (cases c)
  case (NEW_CONTRACT_FOLDER td fn uri)
  then show ?thesis
    using new_contract_folder_result[of h td fn uri "tr @ [ExecuteCommand c]" w]
    by (auto simp: commandRegistry_executeCommand_def io_defs)
next
  case (NEW_CONTRACT_FILE td f content uri)
  then show ?thesis
    using new_contract_file_result[of h td f content uri "tr @ [ExecuteCommand c]" w]
    by (auto simp: commandRegistry_executeCommand_def io_defs)
next
  case (OPEN_SMART_CONTRACT link)
  then show ?thesis
    using doOpenSmartContract_result[of h link "tr @ [ExecuteCommand c]" w]
    by (auto simp: commandRegistry_executeCommand_def io_defs)
qed

lemma bind_executeCommand:
  assumes "\<And>tr w. \<exists>tr' w'. k () (tr, w) = (Inr (), (tr', w')) \<and> commands tr' = commands tr @ cs"
  shows "\<exists>tr' w'. io_bind (commandRegistry_executeCommand h c) k (tr, w) = (Inr (), (tr', w'))
           \<and> commands tr' = commands tr @ c # cs"
proof -
  obtain evs w1 where 1: "commandRegistry_executeCommand h c (tr, w) = (Inr (), (tr @ ExecuteCommand c # evs, w1))"
    and 2: "commands evs = []"
    using executeCommand_result[of h c tr w] by blast
  obtain tr' w' where 3: "k () (tr @ ExecuteCommand c # evs, w1) = (Inr (), (tr', w'))"
    and 4: "commands tr' = commands (tr @ ExecuteCommand c # evs) @ cs"
    using assms[of "tr @ ExecuteCommand c # evs" w1] by blast
  show ?thesis using 1 2 3 4 by (simp add: io_bind_def)
qed

lemma last_executeCommand:
  "\<exists>tr' w'. commandRegistry_executeCommand h c (tr, w) = (Inr (), (tr', w'))
           \<and> commands tr' = commands tr @ [c]"
  using executeCommand_result[of h c tr w] by auto

lemma log_then_executeCommand:
  "\<exists>tr' w'. io_bind (emit (Console_log l)) (\<lambda>_. commandRegistry_executeCommand h c) (tr, w)
             = (Inr (), (tr', w'))
           \<and> commands tr' = commands tr @ [c]"
  using last_executeCommand[of h c "tr @ [Console_log l]" w]
  by (simp add: io_bind_def emit_def)

lemma doCreateContract_Solana_commands:
  "\<exists>tr' w'. doCreateContract (commandRegistry_executeCommand h) ''Solana'' d n (tr, w) = (Inr (), (tr', w'))
     \<and> commands tr' = commands tr @
         [NEW_CONTRACT_FOLDER (Some d) (Some n) None,
          NEW_CONTRACT_FILE (Some (d @ ''/'' @ n)) ''Anchor.toml'' (anchorToml n) None,
          NEW_CONTRACT_FILE (Some (d @ ''/'' @ n)) ''Cargo.toml'' (cargoToml n) None,
          NEW_CONTRACT_FOLDER (Some (d @ ''/'' @ n)) (Some ''program'') None,
          NEW_CONTRACT_FILE (Some ((d @ ''/'' @ n) @ ''/program'')) (n @ ''.rs'') (programRs n) None,
          NEW_CONTRACT_FOLDER (Some (d @ ''/'' @ n)) (Some ''tests'') None,
          NEW_CONTRACT_FILE (Some ((d @ ''/'' @ n) @ ''/tests'')) (n @ ''.ts'') (testTs n) None,
          OPEN_SMART_CONTRACT (d @ ''/'' @ n)]"
proof -
  have body: "\<exists>tr' w'.
     io_bind (commandRegistry_executeCommand h (NEW_CONTRACT_FOLDER (Some d) (Some n) None)) (\<lambda>_.
          io_bind (commandRegistry_executeCommand h (NEW_CONTRACT_FILE (Some (d @ ''/'' @ n)) ''Anchor.toml''
                                     (anchorToml n) None)) (\<lambda>_.
          io_bind (commandRegistry_executeCommand h (NEW_CONTRACT_FILE (Some (d @ ''/'' @ n)) ''Cargo.toml''
                                     (cargoToml n) None)) (\<lambda>_.
          io_bind (commandRegistry_executeCommand h (NEW_CONTRACT_FOLDER (Some (d @ ''/'' @ n)) (Some ''program'') None)) (\<lambda>_.
          io_bind (commandRegistry_executeCommand h (NEW_CONTRACT_FILE (Some ((d @ ''/'' @ n) @ ''/program''))
                                     (n @ ''.rs'') (programRs n) None)) (\<lambda>_.
          io_bind (commandRegistry_executeCommand h (NEW_CONTRACT_FOLDER (Some (d @ ''/'' @ n)) (Some ''tests'') None)) (\<lambda>_.
          io_bind (commandRegistry_executeCommand h (NEW_CONTRACT_FILE (Some ((d @ ''/'' @ n) @ ''/tests''))
                                     (n @ ''.ts'') (testTs n) None)) (\<lambda>_.
          io_bind (emit (Console_log [Str ''Solana project structure created successfully.''])) (\<lambda>_.
          commandRegistry_executeCommand h (OPEN_SMART_CONTRACT (d @ ''/'' @ n)))))))))) (tr, w)
       = (Inr (), (tr', w')) \<and> commands tr' = commands tr @
         [NEW_CONTRACT_FOLDER (Some d) (Some n) None,
          NEW_CONTRACT_FILE (Some (d @ ''/'' @ n)) ''Anchor.toml'' (anchorToml n) None,
          NEW_CONTRACT_FILE (Some (d @ ''/'' @ n)) ''Cargo.toml'' (cargoToml n) None,
          NEW_CONTRACT_FOLDER (Some (d @ ''/'' @ n)) (Some ''program'') None,
          NEW_CONTRACT_FILE (Some ((d @ ''/'' @ n) @ ''/program'')) (n @ ''.rs'') (programRs n) None,
          NEW_CONTRACT_FOLDER (Some (d @ ''/'' @ n)) (Some ''tests'') None,
          NEW_CONTRACT_FILE (Some ((d @ ''/'' @ n) @ ''/tests'')) (n @ ''.ts'') (testTs n) None,
          OPEN_SMART_CONTRACT (d @ ''/'' @ n)]"
    by (intro bind_executeCommand log_then_executeCommand)
  then show ?thesis
    by (auto simp: doCreateContract_def doCreateContract_try_def Let_def io_catch_def)
qed

lemma doCreateContract_other_commands:
  assumes "chain \<noteq> ''Solana''"
  shows "\<exists>tr' w'. doCreateContract (commandRegistry_executeCommand h) chain d n (tr, w) = (Inr (), (tr', w'))
     \<and> commands tr' = commands tr @ [NEW_CONTRACT_FOLDER (Some d) (Some n) None]
     \<and> filesCreated tr' = filesCreated tr"
proof -
  obtain evs w' where 1: "new_contract_folder h (Some d) (Some n) None
            (tr @ [ExecuteCommand (NEW_CONTRACT_FOLDER (Some d) (Some n) None)], w)
       = (Inr (), ((tr @ [ExecuteCommand (NEW_CONTRACT_FOLDER (Some d) (Some n) None)])
                     @ FileService_resolve (parentUriOf h (Some d) None)
                         (fst (fileService_resolve h (parentUriOf h (Some d) None) w)) # evs, w'))"
     and 2: "commands evs = []" "filesCreated evs = []"
    using new_contract_folder_result[of h "Some d" "Some n" None
            "tr @ [ExecuteCommand (NEW_CONTRACT_FOLDER (Some d) (Some n) None)]" w] by blast
  show ?thesis using assms 1 2
    by (simp add: doCreateContract_def doCreateContract_try_def Let_def
        commandRegistry_executeCommand_def io_defs)
qed

lemma doCreateContract_never_throws:
  "fst (doCreateContract exec chain d n s) = Inr ()"
  by (simp add: doCreateContract_def io_catch_def emit_def split: prod.splits sum.splits)

subsection \<open>Parent URIs of the contract handlers\<close>

lemma fileUriString_eq:
  "fileUriString d = ''file:///'' @ encodeURIComponent (map (\<lambda>c. if c = CHR 0x5C then CHR ''/'' else c) d)"
  by (simp add: fileUriString_def replace_backslashes)

lemma new_contract_file_prefix:
  assumes "parentUriOf h td uri = Some pu"
  shows "\<exists>evs w'. new_contract_file h td f content uri (tr, w)
       = (Inr (), (tr @ [Console_log [Str ''targetDirectory ->'', Str (case td of None \<Rightarrow> ''undefined'' | Some d \<Rightarrow> d)],
                        Console_log [Str ''parentUri ->'', Str (uri_toString h pu)],
                        Console_log [Str ''fileName ->'', Str f],
                        FileService_resolve (Some pu) (fst (fileService_resolve h (Some pu) w))] @ evs, w'))"
proof -
  let ?tr = "tr @ [Console_log [Str ''targetDirectory ->'', Str (case td of None \<Rightarrow> ''undefined'' | Some d \<Rightarrow> d)],
                   Console_log [Str ''parentUri ->'', Str (uri_toString h pu)],
                   Console_log [Str ''fileName ->'', Str f]]"
  obtain r evs0 w0 where g: "getDirectory h (Some pu) (?tr, w)
       = (Inr r, (?tr @ FileService_resolve (Some pu) (fst (fileService_resolve h (Some pu) w)) # evs0, w0))"
    using getDirectory_result[of h "Some pu" ?tr w] by blast
  show ?thesis
  proof (cases r)
    case None
    then show ?thesis using g assms by (simp add: new_contract_file_def io_defs Let_def)
  next
    case (Some p)
    obtain r2 w2 where c: "fileService_createFile h (uri_resolve h (resource p) f) content None w0 = (r2, w2)"
      by (cases "fileService_createFile h (uri_resolve h (resource p) f) content None w0")
    show ?thesis using g Some c assms
      by (cases r2) (simp_all add: new_contract_file_def io_defs Let_def)
  qed
qed

text \<open>
  Claim C10: with an empty or missing folder name and a target directory that resolves to a
  directory, \<^verbatim>\<open>NEW_CONTRACT_FOLDER\<close> asks the file service to create the folder \<^verbatim>\<open>Untitled\<close>
  under it; and for every non-empty target directory both handlers build the parent URI from
  \<^verbatim>\<open>file:///\<close> followed by the percent-encoded directory in which every backslash was first
  replaced by a slash: that URI is the one they resolve, print and report.
\<close>

theorem contract_handlers_parent_uri_and_untitled:
  assumes "targetDirectory \<noteq> []"
  shows "(let parentUri = uri_new h (''file:///'' @ encodeURIComponent
                             (map (\<lambda>c. if c = CHR 0x5C then CHR ''/'' else c) targetDirectory))
          in parentUriOf h (Some targetDirectory) uri = Some parentUri
           \<and> (\<exists>evs w'. new_contract_folder h (Some targetDirectory) folderName uri (tr, w)
                  = (Inr (), (tr @ FileService_resolve (Some parentUri)
                                     (fst (fileService_resolve h (Some parentUri) w)) # evs, w')))
           \<and> (\<exists>evs w'. new_contract_file h (Some targetDirectory) fileName content uri (tr, w)
                  = (Inr (), (tr @ [Console_log [Str ''targetDirectory ->'', Str targetDirectory],
                                    Console_log [Str ''parentUri ->'', Str (uri_toString h parentUri)],
                                    Console_log [Str ''fileName ->'', Str fileName],
                                    FileService_resolve (Some parentUri)
                                      (fst (fileService_resolve h (Some parentUri) w))] @ evs, w')))
           \<and> (\<not> truthy folderName \<longrightarrow>
                fileService_resolve h (Some parentUri) w = (Inr st, w1) \<longrightarrow> isDirectory st \<longrightarrow>
                fileService_createFolder h (uri_resolve h (resource st) ''Untitled'') w1 = (Inr st', w2) \<longrightarrow>
                new_contract_folder h (Some targetDirectory) folderName uri (tr, w)
                  = (Inr (),
                     (tr @ [FileService_resolve (Some parentUri) (Inr st),
                            Console_log [Str ''folderUri ->'',
                              Str (uri_toString h (uri_resolve h (resource st) ''Untitled''))],
                            FileService_createFolder (uri_resolve h (resource st) ''Untitled'') (Inr st'),
                            FireCreateNewFile (Some parentUri) (uri_resolve h (resource st) ''Untitled''),
                            Console_log [Str ''Folder successfully created at:'',
                              Str (uri_toString h (uri_resolve h (resource st) ''Untitled''))]],
                      w2))))"
proof -
  let ?P = "uri_new h (''file:///'' @ encodeURIComponent
                         (map (\<lambda>c. if c = CHR 0x5C then CHR ''/'' else c) targetDirectory))"
  have p: "parentUriOf h (Some targetDirectory) uri = Some ?P"
    using assms by (simp add: parentUriOf_def truthy_def fileUriString_eq)
  have a: "\<exists>evs w'. new_contract_folder h (Some targetDirectory) folderName uri (tr, w)
                  = (Inr (), (tr @ FileService_resolve (Some ?P)
                                     (fst (fileService_resolve h (Some ?P) w)) # evs, w'))"
    using new_contract_folder_result[of h "Some targetDirectory" folderName uri tr w] p by auto
  have b: "\<exists>evs w'. new_contract_file h (Some targetDirectory) fileName content uri (tr, w)
                  = (Inr (), (tr @ [Console_log [Str ''targetDirectory ->'', Str targetDirectory],
                                    Console_log [Str ''parentUri ->'', Str (uri_toString h ?P)],
                                    Console_log [Str ''fileName ->'', Str fileName],
                                    FileService_resolve (Some ?P)
                                      (fst (fileService_resolve h (Some ?P) w))] @ evs, w'))"
    using new_contract_file_prefix[OF p, of fileName content tr w] by simp
  have c: "new_contract_folder h (Some targetDirectory) folderName uri (tr, w)
                  = (Inr (),
                     (tr @ [FileService_resolve (Some ?P) (Inr st),
                            Console_log [Str ''folderUri ->'',
                              Str (uri_toString h (uri_resolve h (resource st) ''Untitled''))],
                            FileService_createFolder (uri_resolve h (resource st) ''Untitled'') (Inr st'),
                            FireCreateNewFile (Some ?P) (uri_resolve h (resource st) ''Untitled''),
                            Console_log [Str ''Folder successfully created at:'',
                              Str (uri_toString h (uri_resolve h (resource st) ''Untitled''))]],
                      w2))"
    if "\<not> truthy folderName" "fileService_resolve h (Some ?P) w = (Inr st, w1)" "isDirectory st"
       "fileService_createFolder h (uri_resolve h (resource st) ''Untitled'') w1 = (Inr st', w2)"
    using new_contract_folder_directory[of h "Some targetDirectory" uri w st w1 folderName "Inr st'" w2 tr]
          that p by simp
  show ?thesis unfolding Let_def using p a b c by blast
qed

theorem contract_handlers_parent_uri_and_untitled_witness:
  "fileUriString (''C:'' @ [CHR 0x5C] @ ''work dir'') = ''file:///C%3A%2Fwork%20dir''
   \<and> new_contract_folder demoHost (Some (''C:'' @ [CHR 0x5C] @ ''work dir'')) None None
        ([], demo_world0\<lparr>dirs := [''/C:/work dir'']\<rparr>)
     = (Inr (),
        ([FileService_resolve (Some ''/C:/work dir'') (Inr (dirStat ''/C:/work dir'')),
          Console_log [Str ''folderUri ->'', Str ''/C:/work dir/Untitled''],
          FileService_createFolder ''/C:/work dir/Untitled'' (Inr (dirStat ''/C:/work dir/Untitled'')),
          FireCreateNewFile (Some ''/C:/work dir'') ''/C:/work dir/Untitled'',
          Console_log [Str ''Folder successfully created at:'', Str ''/C:/work dir/Untitled'']],
         demo_world0\<lparr>dirs := [''/C:/work dir'', ''/C:/work dir/Untitled'']\<rparr>))"
proof -
  let ?d = "''C:'' @ [CHR 0x5C] @ ''work dir''"
  let ?w = "demo_world0\<lparr>dirs := [''/C:/work dir'']\<rparr>"
  have d: "?d \<noteq> []" by simp
  have f: "fileUriString ?d = ''file:///C%3A%2Fwork%20dir''" by code_simp
  have u: "uri_new demoHost (''file:///'' @ encodeURIComponent
             (map (\<lambda>c. if c = CHR 0x5C then CHR ''/'' else c) ?d)) = ''/C:/work dir''"
    by code_simp
  have t: "\<not> truthy None" by (simp add: truthy_def)
  have r: "fileService_resolve demoHost (Some ''/C:/work dir'') ?w = (Inr (dirStat ''/C:/work dir''), ?w)"
    by code_simp
  have i: "isDirectory (dirStat ''/C:/work dir'')" by (simp add: dirStat_def)
  have c: "fileService_createFolder demoHost (uri_resolve demoHost (resource (dirStat ''/C:/work dir'')) ''Untitled'') ?w
           = (Inr (dirStat ''/C:/work dir/Untitled''), demo_world0\<lparr>dirs := [''/C:/work dir'', ''/C:/work dir/Untitled'']\<rparr>)"
    by code_simp
  have s1: "uri_resolve demoHost (resource (dirStat ''/C:/work dir'')) ''Untitled'' = ''/C:/work dir/Untitled''"
    by code_simp
  have s2: "uri_toString demoHost ''/C:/work dir/Untitled'' = ''/C:/work dir/Untitled''"
    by code_simp
  show ?thesis
    using contract_handlers_parent_uri_and_untitled[OF d,
            where h = demoHost and folderName = None and uri = None and tr = "[]" and w = ?w
              and st = "dirStat ''/C:/work dir''" and ?w1.0 = ?w
              and st' = "dirStat ''/C:/work dir/Untitled''"
              and ?w2.0 = "demo_world0\<lparr>dirs := [''/C:/work dir'', ''/C:/work dir/Untitled'']\<rparr>"]
          f u t r i c s1 s2
    by (simp add: Let_def)
qed

subsection \<open>Scaffolding a project\<close>

text \<open>
  Claim C3: with the blockchain \<^verbatim>\<open>Solana\<close>, a project name \<open>n\<close> and a target directory \<open>d\<close>,
  \<^verbatim>\<open>doCreateContract\<close> executes exactly eight commands, each after the one before has
  completed: the folder \<open>n\<close> under \<open>d\<close>; the files \<^verbatim>\<open>Anchor.toml\<close> and \<^verbatim>\<open>Cargo.toml\<close> in \<open>d/n\<close>; the
  folder \<^verbatim>\<open>program\<close> in \<open>d/n\<close>; the file \<open>n.rs\<close> in \<open>d/n/program\<close>; the folder \<^verbatim>\<open>tests\<close> in \<open>d/n\<close>;
  the file \<open>n.ts\<close> in \<open>d/n/tests\<close>; and the opening of \<open>d/n\<close> as the workspace. It then
  resolves normally.
\<close>

theorem doCreateContract_Solana_command_sequence:
  "fst (doCreateContract (commandRegistry_executeCommand h) ''Solana'' d n (tr, w)) = Inr ()
   \<and> commands (fst (snd (doCreateContract (commandRegistry_executeCommand h) ''Solana'' d n (tr, w))))
     = commands tr @
         [NEW_CONTRACT_FOLDER (Some d) (Some n) None,
          NEW_CONTRACT_FILE (Some (d @ ''/'' @ n)) ''Anchor.toml'' (anchorToml n) None,
          NEW_CONTRACT_FILE (Some (d @ ''/'' @ n)) ''Cargo.toml'' (cargoToml n) None,
          NEW_CONTRACT_FOLDER (Some (d @ ''/'' @ n)) (Some ''program'') None,
          NEW_CONTRACT_FILE (Some (d @ ''/'' @ n @ ''/program'')) (n @ ''.rs'') (programRs n) None,
          NEW_CONTRACT_FOLDER (Some (d @ ''/'' @ n)) (Some ''tests'') None,
          NEW_CONTRACT_FILE (Some (d @ ''/'' @ n @ ''/tests'')) (n @ ''.ts'') (testTs n) None,
          OPEN_SMART_CONTRACT (d @ ''/'' @ n)]"
  using doCreateContract_Solana_commands[of h d n tr w] by auto

theorem doCreateContract_Solana_command_sequence_witness:
  "commands (fst (snd (doCreateContract (commandRegistry_executeCommand demoHost) ''Solana'' ''C:'' ''app''
                         ([], demo_world0))))
     = [NEW_CONTRACT_FOLDER (Some ''C:'') (Some ''app'') None,
        NEW_CONTRACT_FILE (Some ''C:/app'') ''Anchor.toml'' (anchorToml ''app'') None,
        NEW_CONTRACT_FILE (Some ''C:/app'') ''Cargo.toml'' (cargoToml ''app'') None,
        NEW_CONTRACT_FOLDER (Some ''C:/app'') (Some ''program'') None,
        NEW_CONTRACT_FILE (Some ''C:/app/program'') ''app.rs'' (programRs ''app'') None,
        NEW_CONTRACT_FOLDER (Some ''C:/app'') (Some ''tests'') None,
        NEW_CONTRACT_FILE (Some ''C:/app/tests'') ''app.ts'' (testTs ''app'') None,
        OPEN_SMART_CONTRACT ''C:/app'']"
  using doCreateContract_Solana_command_sequence[of demoHost "''C:''" "''app''" "[]" demo_world0]
  by simp

text \<open>
  Claim C1, as the code has it: for every completed form, a click on Create Project executes
  the command that creates the project folder. For the blockchain \<^verbatim>\<open>Solana\<close> it goes on to
  execute the commands that create the template files and the two sub-folders and that open
  the project. For any other blockchain, \<^verbatim>\<open>Ethereum\<close> included, it executes nothing more: no
  file is created.
\<close>

theorem clickCreateProject_scaffold:
  assumes "projectName f \<noteq> []" and "blockchain f \<noteq> []" and "language f \<noteq> []"
  shows "fst (clickCreateProject h f (tr, w)) = Inr ()
   \<and> (blockchain f = ''Solana'' \<longrightarrow>
        commands (fst (snd (clickCreateProject h f (tr, w))))
        = commands tr @
            [NEW_CONTRACT_FOLDER (Some (path f)) (Some (projectName f)) None,
             NEW_CONTRACT_FILE (Some (path f @ ''/'' @ projectName f)) ''Anchor.toml''
               (anchorToml (projectName f)) None,
             NEW_CONTRACT_FILE (Some (path f @ ''/'' @ projectName f)) ''Cargo.toml''
               (cargoToml (projectName f)) None,
             NEW_CONTRACT_FOLDER (Some (path f @ ''/'' @ projectName f)) (Some ''program'') None,
             NEW_CONTRACT_FILE (Some (path f @ ''/'' @ projectName f @ ''/program''))
               (projectName f @ ''.rs'') (programRs (projectName f)) None,
             NEW_CONTRACT_FOLDER (Some (path f @ ''/'' @ projectName f)) (Some ''tests'') None,
             NEW_CONTRACT_FILE (Some (path f @ ''/'' @ projectName f @ ''/tests''))
               (projectName f @ ''.ts'') (testTs (projectName f)) None,
             OPEN_SMART_CONTRACT (path f @ ''/'' @ projectName f)])
   \<and> (blockchain f \<noteq> ''Solana'' \<longrightarrow>
        commands (fst (snd (clickCreateProject h f (tr, w))))
        = commands tr @ [NEW_CONTRACT_FOLDER (Some (path f)) (Some (projectName f)) None]
        \<and> filesCreated (fst (snd (clickCreateProject h f (tr, w)))) = filesCreated tr)"
proof -
  have c: "clickCreateProject h f (tr, w)
           = doCreateContract (commandRegistry_executeCommand h) (blockchain f) (path f) (projectName f) (tr, w)"
    using assms
    by (simp add: clickCreateProject_def click_def createProjectButton_def isCreateButtonDisabled_def falsy_def)
  show ?thesis
  proof (cases "blockchain f = ''Solana''")
    case True
    then show ?thesis
      using doCreateContract_Solana_commands[of h "path f" "projectName f" tr w] c by auto
  next
    case False
    then show ?thesis
      using doCreateContract_other_commands[OF False, of h "path f" "projectName f" tr w] c by auto
  qed
qed

theorem clickCreateProject_scaffold_witness:
  "commands (fst (snd (clickCreateProject demoHost (demo_widget ''Solana'' ''Anchor (Rust)'') ([], demo_world0))))
     = [NEW_CONTRACT_FOLDER (Some ''C:'') (Some ''app'') None,
        NEW_CONTRACT_FILE (Some ''C:/app'') ''Anchor.toml'' (anchorToml ''app'') None,
        NEW_CONTRACT_FILE (Some ''C:/app'') ''Cargo.toml'' (cargoToml ''app'') None,
        NEW_CONTRACT_FOLDER (Some ''C:/app'') (Some ''program'') None,
        NEW_CONTRACT_FILE (Some ''C:/app/program'') ''app.rs'' (programRs ''app'') None,
        NEW_CONTRACT_FOLDER (Some ''C:/app'') (Some ''tests'') None,
        NEW_CONTRACT_FILE (Some ''C:/app/tests'') ''app.ts'' (testTs ''app'') None,
        OPEN_SMART_CONTRACT ''C:/app'']
   \<and> commands (fst (snd (clickCreateProject demoHost (demo_widget ''Ethereum'' ''Vyper'') ([], demo_world0))))
     = [NEW_CONTRACT_FOLDER (Some ''C:'') (Some ''app'') None]"
proof -
  have 1: "projectName (demo_widget c l) \<noteq> []" for c l by (simp add: demo_widget_def)
  have 2: "blockchain (demo_widget ''Solana'' l) \<noteq> []" "blockchain (demo_widget ''Ethereum'' l) \<noteq> []"
    for l by (simp_all add: demo_widget_def)
  have 3: "language (demo_widget c ''Anchor (Rust)'') \<noteq> []" "language (demo_widget c ''Vyper'') \<noteq> []"
    for c by (simp_all add: demo_widget_def)
  show ?thesis
    using clickCreateProject_scaffold[OF 1 2(1) 3(1), of demoHost "[]" demo_world0]
          clickCreateProject_scaffold[OF 1 2(2) 3(2), of demoHost "[]" demo_world0]
    by (simp add: demo_widget_def)
qed

text \<open>
  The claim as the specification states it fails for \<^verbatim>\<open>Ethereum\<close>: on a disk where the target
  directory exists, the completed form creates the empty project folder and no file.
\<close>

theorem clickCreateProject_Ethereum_counterexample:
  "clickCreateProject demoHost (demo_widget ''Ethereum'' ''Solidity'') ([], demo_world0)
   = (Inr (),
      [ExecuteCommand (NEW_CONTRACT_FOLDER (Some ''C:'') (Some ''app'') None),
       FileService_resolve (Some ''/C:'') (Inr (dirStat ''/C:'')),
       Console_log [Str ''folderUri ->'', Str ''/C:/app''],
       FileService_createFolder ''/C:/app'' (Inr (dirStat ''/C:/app'')),
       FireCreateNewFile (Some ''/C:'') ''/C:/app'',
       Console_log [Str ''Folder successfully created at:'', Str ''/C:/app'']],
      demo_world0\<lparr>dirs := [''/C:'', ''/C:/app'']\<rparr>)
   \<and> filesCreated (fst (snd (clickCreateProject demoHost (demo_widget ''Ethereum'' ''Solidity'')
                              ([], demo_world0)))) = []
   \<and> files (snd (snd (clickCreateProject demoHost (demo_widget ''Ethereum'' ''Solidity'')
                        ([], demo_world0)))) = []"
  by code_simp

subsection \<open>Errors in the contract handlers\<close>

lemma new_contract_folder_unresolved:
  assumes "parentUriOf h td uri = Some p"
    and "fileService_resolve h (Some p) w = (Inl e, w1)"
    and "fileService_resolve h (Some (uri_parent h p)) w1 = (Inl e', w2)"
  shows "new_contract_folder h td fn uri (tr, w)
         = (Inr (),
            (tr @ [FileService_resolve (Some p) (Inl e),
                   FileService_resolve (Some (uri_parent h p)) (Inl e'),
                   Console_warn [Str ''Parent directory could not be found or is invalid.'']],
             w2))"
  using assms getDirectory_unresolved[OF assms(2,3), of tr]
  by (simp add: new_contract_folder_def io_defs Let_def)

lemma new_contract_file_unresolved:
  assumes "parentUriOf h td uri = Some p"
    and "fileService_resolve h (Some p) w = (Inl e, w1)"
    and "fileService_resolve h (Some (uri_parent h p)) w1 = (Inl e', w2)"
  shows "new_contract_file h td f content uri (tr, w)
         = (Inr (),
            (tr @ [Console_log [Str ''targetDirectory ->'', Str (case td of None \<Rightarrow> ''undefined'' | Some d \<Rightarrow> d)],
                   Console_log [Str ''parentUri ->'', Str (uri_toString h p)],
                   Console_log [Str ''fileName ->'', Str f],
                   FileService_resolve (Some p) (Inl e),
                   FileService_resolve (Some (uri_parent h p)) (Inl e'),
                   Console_warn [Str ''Parent directory could not be found or is invalid.'']],
             w2))"
  using assms getDirectory_unresolved[OF assms(2,3)]
  by (simp add: new_contract_file_def io_defs Let_def)

lemma doCreateContract_caught:
  assumes "doCreateContract_try exec chain d n s = (Inl e, (tr1, w1))"
  shows "doCreateContract exec chain d n s
         = (Inr (), (tr1 @ [Console_error [Str ''Error creating contract structure:'', Err e]], w1))"
  using assms by (simp add: doCreateContract_def io_catch_def emit_def)

text \<open>
  Claim C7, as the code has it: the handlers of \<^verbatim>\<open>NEW_CONTRACT_FOLDER\<close> and \<^verbatim>\<open>NEW_CONTRACT_FILE\<close>
  and \<^verbatim>\<open>doCreateContract\<close> never throw. A rejection of \<^verbatim>\<open>createFolder\<close> or \<^verbatim>\<open>createFile\<close>, and
  in \<^verbatim>\<open>doCreateContract\<close> anything its \<^verbatim>\<open>try\<close> block throws, is caught and printed with
  \<^verbatim>\<open>console.error\<close>; the handler then resolves, and nothing is undone or tried again. A
  rejection of the directory resolution is caught without being printed: when neither the
  parent URI nor its parent resolves, the handler prints a warning and creates nothing.
\<close>

theorem contract_handlers_never_throw:
  "fst (new_contract_folder h td fn uri s) = Inr ()
   \<and> fst (new_contract_file h td f content uri s) = Inr ()
   \<and> fst (doCreateContract exec chain d n s) = Inr ()
   \<and> (fileService_resolve h (parentUriOf h td uri) w = (Inr st, w1) \<longrightarrow> isDirectory st \<longrightarrow>
        fileService_createFolder h (uri_resolve h (resource st) (if truthy fn then the fn else ''Untitled'')) w1
          = (Inl e, w2) \<longrightarrow>
        new_contract_folder h td fn uri (tr, w)
          = (Inr (),
             (tr @ [FileService_resolve (parentUriOf h td uri) (Inr st),
                    Console_log [Str ''folderUri ->'',
                      Str (uri_toString h (uri_resolve h (resource st)
                                             (if truthy fn then the fn else ''Untitled'')))],
                    FileService_createFolder
                      (uri_resolve h (resource st) (if truthy fn then the fn else ''Untitled'')) (Inl e),
                    Console_error [Str ''Error creating folder:'', Err e]],
              w2)))
   \<and> (parentUriOf h td uri = Some p \<longrightarrow>
        fileService_resolve h (Some p) w = (Inr st, w1) \<longrightarrow> isDirectory st \<longrightarrow>
        fileService_createFile h (uri_resolve h (resource st) f) content None w1 = (Inl e, w2) \<longrightarrow>
        new_contract_file h td f content uri (tr, w)
          = (Inr (),
             (tr @ [Console_log [Str ''targetDirectory ->'',
                      Str (case td of None \<Rightarrow> ''undefined'' | Some d \<Rightarrow> d)],
                    Console_log [Str ''parentUri ->'', Str (uri_toString h p)],
                    Console_log [Str ''fileName ->'', Str f],
                    FileService_resolve (Some p) (Inr st),
                    Console_log [Str ''fileUri ->'', Str (uri_toString h (uri_resolve h (resource st) f))],
                    FileService_createFile (uri_resolve h (resource st) f) content None (Inl e),
                    Console_error [Str ''Error creating file:'', Err e]],
              w2)))
   \<and> (doCreateContract_try exec chain d n (tr, w) = (Inl e, (tr1, w1)) \<longrightarrow>
        doCreateContract exec chain d n (tr, w)
          = (Inr (), (tr1 @ [Console_error [Str ''Error creating contract structure:'', Err e]], w1)))
   \<and> (parentUriOf h td uri = Some p \<longrightarrow>
        fileService_resolve h (Some p) w = (Inl e, w1) \<longrightarrow>
        fileService_resolve h (Some (uri_parent h p)) w1 = (Inl e', w2) \<longrightarrow>
        new_contract_folder h td fn uri (tr, w)
          = (Inr (),
             (tr @ [FileService_resolve (Some p) (Inl e),
                    FileService_resolve (Some (uri_parent h p)) (Inl e'),
                    Console_warn [Str ''Parent directory could not be found or is invalid.'']],
              w2))
        \<and> new_contract_file h td f content uri (tr, w)
          = (Inr (),
             (tr @ [Console_log [Str ''targetDirectory ->'',
                      Str (case td of None \<Rightarrow> ''undefined'' | Some d \<Rightarrow> d)],
                    Console_log [Str ''parentUri ->'', Str (uri_toString h p)],
                    Console_log [Str ''fileName ->'', Str f],
                    FileService_resolve (Some p) (Inl e),
                    FileService_resolve (Some (uri_parent h p)) (Inl e'),
                    Console_warn [Str ''Parent directory could not be found or is invalid.'']],
              w2)))"
proof -
  have 1: "fst (new_contract_folder h td fn uri s) = Inr ()"
    using new_contract_folder_result[of h td fn uri "fst s" "snd s"] by auto
  have 2: "fst (new_contract_file h td f content uri s) = Inr ()"
    using new_contract_file_result[of h td f content uri "fst s" "snd s"] by auto
  have 3: "fst (doCreateContract exec chain d n s) = Inr ()"
    by (rule doCreateContract_never_throws)
  show ?thesis
    using 1 2 3
      new_contract_folder_directory[of h td uri w st w1 fn "Inl e" w2 tr]
      new_contract_file_directory[of h td uri p w st w1 f content "Inl e" w2 tr]
      doCreateContract_caught[of exec chain d n "(tr, w)" e tr1 w1]
      new_contract_folder_unresolved[of h td uri p w e w1 e' w2 fn tr]
      new_contract_file_unresolved[of h td uri p w e w1 e' w2 f content tr]
    by simp
qed

theorem contract_handlers_never_throw_witness:
  "new_contract_folder readOnlyHost (Some ''C:'') (Some ''app'') None ([], demo_world0)
     = (Inr (),
        ([FileService_resolve (Some ''/C:'') (Inr (dirStat ''/C:'')),
          Console_log [Str ''folderUri ->'', Str ''/C:/app''],
          FileService_createFolder ''/C:/app'' (Inl (Error ''EACCES'')),
          Console_error [Str ''Error creating folder:'', Err (Error ''EACCES'')]],
         demo_world0))
   \<and> new_contract_file readOnlyHost (Some ''C:'') ''a.txt'' ''text'' None ([], demo_world0)
     = (Inr (),
        ([Console_log [Str ''targetDirectory ->'', Str ''C:''],
          Console_log [Str ''parentUri ->'', Str ''/C:''],
          Console_log [Str ''fileName ->'', Str ''a.txt''],
          FileService_resolve (Some ''/C:'') (Inr (dirStat ''/C:'')),
          Console_log [Str ''fileUri ->'', Str ''/C:/a.txt''],
          FileService_createFile ''/C:/a.txt'' ''text'' None (Inl (Error ''EACCES'')),
          Console_error [Str ''Error creating file:'', Err (Error ''EACCES'')]],
         demo_world0))
   \<and> doCreateContract emptyRegistry ''Solana'' ''C:'' ''app'' ([], demo_world0)
     = (Inr (),
        ([Console_error [Str ''Error creating contract structure:'', Err (Error ''no handler'')]],
         demo_world0))
   \<and> new_contract_folder demoHost (Some ''D:/x'') (Some ''app'') None ([], demo_world0)
     = (Inr (),
        ([FileService_resolve (Some ''/D:/x'') (Inl (Error ''ENOENT'')),
          FileService_resolve (Some ''/D:'') (Inl (Error ''ENOENT'')),
          Console_warn [Str ''Parent directory could not be found or is invalid.'']],
         demo_world0))"
proof -
  have p: "parentUriOf readOnlyHost (Some ''C:'') None = Some ''/C:''" by code_simp
  have r: "fileService_resolve readOnlyHost (Some ''/C:'') demo_world0 = (Inr (dirStat ''/C:''), demo_world0)"
    by code_simp
  have i: "isDirectory (dirStat ''/C:'')" by (simp add: dirStat_def)
  have cf: "fileService_createFolder readOnlyHost
              (uri_resolve readOnlyHost (resource (dirStat ''/C:'')) (if truthy (Some ''app'') then the (Some ''app'') else ''Untitled''))
              demo_world0 = (Inl (Error ''EACCES''), demo_world0)"
    by code_simp
  have cfile: "fileService_createFile readOnlyHost (uri_resolve readOnlyHost (resource (dirStat ''/C:'')) ''a.txt'')
                 ''text'' None demo_world0 = (Inl (Error ''EACCES''), demo_world0)"
    by code_simp
  have u: "uri_resolve readOnlyHost (resource (dirStat ''/C:'')) (if truthy (Some ''app'') then the (Some ''app'') else ''Untitled'') = ''/C:/app''"
          "uri_resolve readOnlyHost (resource (dirStat ''/C:'')) ''a.txt'' = ''/C:/a.txt''"
          "uri_toString readOnlyHost ''/C:/app'' = ''/C:/app''"
          "uri_toString readOnlyHost ''/C:/a.txt'' = ''/C:/a.txt''"
          "uri_toString readOnlyHost ''/C:'' = ''/C:''"
    by code_simp+
  have x: "doCreateContract_try emptyRegistry ''Solana'' ''C:'' ''app'' ([], demo_world0)
           = (Inl (Error ''no handler''), ([], demo_world0))"
    by (simp add: doCreateContract_try_def emptyRegistry_def io_throw_def io_bind_def)
  have q: "parentUriOf demoHost (Some ''D:/x'') None = Some ''/D:/x''" by code_simp
  have q1: "fileService_resolve demoHost (Some ''/D:/x'') demo_world0 = (Inl (Error ''ENOENT''), demo_world0)"
    by code_simp
  have q2: "uri_parent demoHost ''/D:/x'' = ''/D:''" by code_simp
  have q3: "fileService_resolve demoHost (Some ''/D:'') demo_world0 = (Inl (Error ''ENOENT''), demo_world0)"
    by code_simp
  have A: "new_contract_folder readOnlyHost (Some ''C:'') (Some ''app'') None ([], demo_world0)
     = (Inr (),
        ([FileService_resolve (Some ''/C:'') (Inr (dirStat ''/C:'')),
          Console_log [Str ''folderUri ->'', Str ''/C:/app''],
          FileService_createFolder ''/C:/app'' (Inl (Error ''EACCES'')),
          Console_error [Str ''Error creating folder:'', Err (Error ''EACCES'')]],
         demo_world0))"
    using contract_handlers_never_throw[where h = readOnlyHost and td = "Some ''C:''" and uri = None
            and w = demo_world0 and st = "dirStat ''/C:''" and ?w1.0 = demo_world0
            and fn = "Some ''app''" and e = "Error ''EACCES''" and ?w2.0 = demo_world0 and tr = "[]",
            THEN conjunct2, THEN conjunct2, THEN conjunct2, THEN conjunct1]
          p r i cf u
    by simp
  have B: "new_contract_file readOnlyHost (Some ''C:'') ''a.txt'' ''text'' None ([], demo_world0)
     = (Inr (),
        ([Console_log [Str ''targetDirectory ->'', Str ''C:''],
          Console_log [Str ''parentUri ->'', Str ''/C:''],
          Console_log [Str ''fileName ->'', Str ''a.txt''],
          FileService_resolve (Some ''/C:'') (Inr (dirStat ''/C:'')),
          Console_log [Str ''fileUri ->'', Str ''/C:/a.txt''],
          FileService_createFile ''/C:/a.txt'' ''text'' None (Inl (Error ''EACCES'')),
          Console_error [Str ''Error creating file:'', Err (Error ''EACCES'')]],
         demo_world0))"
    using contract_handlers_never_throw[where h = readOnlyHost and td = "Some ''C:''" and uri = None
            and p = "''/C:''" and w = demo_world0 and st = "dirStat ''/C:''" and ?w1.0 = demo_world0
            and f = "''a.txt''" and content = "''text''" and e = "Error ''EACCES''"
            and ?w2.0 = demo_world0 and tr = "[]",
            THEN conjunct2, THEN conjunct2, THEN conjunct2, THEN conjunct2, THEN conjunct1]
          p r i cfile u
    by simp
  have C: "doCreateContract emptyRegistry ''Solana'' ''C:'' ''app'' ([], demo_world0)
     = (Inr (),
        ([Console_error [Str ''Error creating contract structure:'', Err (Error ''no handler'')]],
         demo_world0))"
    using contract_handlers_never_throw[where exec = emptyRegistry
            and d = "''C:''" and n = "''app''" and tr = "[]" and w = demo_world0
            and e = "Error ''no handler''" and ?tr1.0 = "[]" and ?w1.0 = demo_world0
            and chain = "''Solana''",
            THEN conjunct2, THEN conjunct2, THEN conjunct2, THEN conjunct2, THEN conjunct2, THEN conjunct1]
          x
    by simp
  have D: "new_contract_folder demoHost (Some ''D:/x'') (Some ''app'') None ([], demo_world0)
     = (Inr (),
        ([FileService_resolve (Some ''/D:/x'') (Inl (Error ''ENOENT'')),
          FileService_resolve (Some ''/D:'') (Inl (Error ''ENOENT'')),
          Console_warn [Str ''Parent directory could not be found or is invalid.'']],
         demo_world0))"
    using contract_handlers_never_throw[where h = demoHost and td = "Some ''D:/x''" and uri = None
            and p = "''/D:/x''" and w = demo_world0 and e = "Error ''ENOENT''" and ?w1.0 = demo_world0
            and e' = "Error ''ENOENT''" and ?w2.0 = demo_world0 and fn = "Some ''app''" and tr = "[]"
            and f = "[]" and content = "[]",
            THEN conjunct2, THEN conjunct2, THEN conjunct2, THEN conjunct2, THEN conjunct2, THEN conjunct2]
          q q1 q2 q3
    by simp
  show ?thesis using A B C D by simp
qed

text \<open>
  The claim as the specification states it fails where it says that every error of the
  directory resolution is logged: when the target directory does not resolve and its parent
  does, the rejection is dropped, nothing is printed as an error or a warning, and the
  folder is created in the parent.
\<close>

theorem new_contract_folder_resolution_error_counterexample:
  "new_contract_folder demoHost (Some ''C:/missing'') (Some ''x'') None ([], demo_world0)
   = (Inr (),
      [FileService_resolve (Some ''/C:/missing'') (Inl (Error ''ENOENT'')),
       FileService_resolve (Some ''/C:'') (Inr (dirStat ''/C:'')),
       Console_log [Str ''folderUri ->'', Str ''/C:/x''],
       FileService_createFolder ''/C:/x'' (Inr (dirStat ''/C:/x'')),
       FireCreateNewFile (Some ''/C:/missing'') ''/C:/x'',
       Console_log [Str ''Folder successfully created at:'', Str ''/C:/x'']],
      demo_world0\<lparr>dirs := [''/C:'', ''/C:/x'']\<rparr>)
   \<and> filter isErrorLog (fst (snd (new_contract_folder demoHost (Some ''C:/missing'') (Some ''x'') None
                                     ([], demo_world0)))) = []"
  by code_simp

subsection \<open>Sets and JSON\<close>

lemma Array_from_Set_snoc: "Array_from_Set (xs @ [x]) = Set_add (Array_from_Set xs) x"
  by (simp add: Array_from_Set_def)

lemma set_Array_from_Set: "set (Array_from_Set xs) = set xs"
  by (induction xs rule: rev_induct) (auto simp: Array_from_Set_snoc Set_add_def Array_from_Set_def)

lemma distinct_Array_from_Set: "distinct (Array_from_Set xs)"
  by (induction xs rule: rev_induct) (auto simp: Array_from_Set_snoc Set_add_def Array_from_Set_def)

lemma first_index_append: "p \<in> set xs \<Longrightarrow> first_index (xs @ ys) p = first_index xs p"
  by (simp add: first_index_def takeWhile_append1 [where x = p])
  
lemma first_index_less: "p \<in> set xs \<Longrightarrow> first_index xs p < length xs"
  unfolding first_index_def by (induction xs) auto

lemma first_index_new: "x \<notin> set xs \<Longrightarrow> first_index (xs @ [x]) x = length xs"
  unfolding first_index_def by (induction xs) auto

lemma Array_from_Set_first_occurrence_order:
  "sorted_wrt (\<lambda>p q. first_index xs p < first_index xs q) (Array_from_Set xs)"
proof (induction xs rule: rev_induct)
  case Nil
  then show ?case by (simp add: Array_from_Set_def)
next
  case (snoc x xs)
  have keep: "sorted_wrt (\<lambda>p q. first_index (xs @ [x]) p < first_index (xs @ [x]) q) (Array_from_Set xs)"
    using snoc
    by (rule sorted_wrt_mono_rel[rotated]) (simp add: set_Array_from_Set first_index_append)
  show ?case
  proof (cases "x \<in> set xs")
    case True
    then show ?thesis using keep by (simp add: Array_from_Set_snoc Set_add_def set_Array_from_Set)
  next
    case False
    then show ?thesis
      using keep
      by (simp add: Array_from_Set_snoc Set_add_def set_Array_from_Set sorted_wrt_append
          first_index_append first_index_new first_index_less)
  qed
qed

lemma join_indent:
  "xs \<noteq> [] \<Longrightarrow> ind @ join (sep @ ind) xs = join sep (map (\<lambda>x. ind @ x) xs)"
  by (induction sep xs rule: join.induct) simp_all

lemma replicate4: "replicate 4 c = [c, c, c, c]"
  by (simp add: numeral_eq_Suc)

lemma stringify_folders:
  "JSON_stringify (JObject [(''folders'', JArray (map (\<lambda>path. JObject [(''path'', JString path)]) ps))]) 4
   = workspaceFileText ps"
proof (cases "ps = []")
  case True
  then show ?thesis
    by (simp add: JSON_stringify_def replicate4 wrapJSON_def workspaceFileText_def quoteJSONString_def quoteChar_def)
next
  case False
  have "join ('','' @ [CHR 0x0A] @ ''        '')
          (map (\<lambda>x. serializeJSON ''    '' ''        '' (JObject [(''path'', JString x)])) ps)
        = join ('','' @ [CHR 0x0A] @ ''        '') (map (\<lambda>p. ''{'' @ [CHR 0x0A] @ ''            '' @ quoteJSONString ''path'' @ '': '' @ quoteJSONString p @ [CHR 0x0A] @ ''        }'') ps)"
    by (simp add: wrapJSON_def)
  then show ?thesis
    using False join_indent[of "map (\<lambda>p. ''{'' @ [CHR 0x0A] @ ''            '' @ quoteJSONString ''path'' @ '': '' @ quoteJSONString p @ [CHR 0x0A] @ ''        }'') ps" "''        ''" "'','' @ [CHR 0x0A]"]
    apply (simp add: JSON_stringify_def replicate4 wrapJSON_def workspaceFileText_def comp_def)
    apply (simp add: quoteJSONString_def quoteChar_def)
    done
qed

subsection \<open>Multi-root workspace synthesis\<close>

text \<open>
  Claim C2: for every list of root folder stats, the workspace file that
  \<^verbatim>\<open>createMultiRootWorkspace\<close> writes holds a \<^verbatim>\<open>folders\<close> array in which every distinct root path
  occurs exactly once, in the order of the first occurrences, as JSON indented by four
  spaces; and the file is created at the URI of the untitled workspace with \<^verbatim>\<open>overwrite\<close>
  set.
\<close>

theorem createMultiRootWorkspace_writes_distinct_folders:
  assumes "workspaceService_getUntitledWorkspace h w = (Inr untitled, w1)"
    and "fileService_createFile h untitled
           (workspaceFileText (Array_from_Set (map (\<lambda>stat. uri_path_toString h (resource stat)) roots)))
           (Some True) w1 = (r, w2)"
  shows "(let paths = Array_from_Set (map (\<lambda>stat. uri_path_toString h (resource stat)) roots)
          in createMultiRootWorkspace h roots (tr, w)
             = ((case r of Inl e \<Rightarrow> Inl e | Inr stat \<Rightarrow> Inr (resource stat)),
                (tr @ [WorkspaceService_getUntitledWorkspace (Inr untitled),
                       FileService_createFile untitled (workspaceFileText paths) (Some True) r],
                 w2))
           \<and> distinct paths
           \<and> set paths = set (map (\<lambda>stat. uri_path_toString h (resource stat)) roots)
           \<and> sorted_wrt (\<lambda>p q. first_index (map (\<lambda>stat. uri_path_toString h (resource stat)) roots) p
                                < first_index (map (\<lambda>stat. uri_path_toString h (resource stat)) roots) q)
                paths)"
proof -
  let ?paths = "Array_from_Set (map (\<lambda>stat. uri_path_toString h (resource stat)) roots)"
  have "createMultiRootWorkspace h roots (tr, w)
        = ((case r of Inl e \<Rightarrow> Inl e | Inr stat \<Rightarrow> Inr (resource stat)),
           (tr @ [WorkspaceService_getUntitledWorkspace (Inr untitled),
                  FileService_createFile untitled (workspaceFileText ?paths) (Some True) r],
            w2))"
    using assms
    by (cases r) (simp_all add: createMultiRootWorkspace_def io_defs Let_def stringify_folders)
  then show ?thesis
    unfolding Let_def
    by (intro conjI distinct_Array_from_Set set_Array_from_Set Array_from_Set_first_occurrence_order)
qed

theorem createMultiRootWorkspace_writes_distinct_folders_witness:
  \<open>createMultiRootWorkspace demoHost [dirStat ''/a'', dirStat ''/b'', dirStat ''/a'']
     ([], demo_world0\<lparr>files := [(''/tmp/Untitled.theia-workspace'', ''old'')]\<rparr>)
   = (Inr ''/tmp/Untitled.theia-workspace'',
      ([WorkspaceService_getUntitledWorkspace (Inr ''/tmp/Untitled.theia-workspace''),
        FileService_createFile ''/tmp/Untitled.theia-workspace'' (workspaceFileText [''/a'', ''/b''])
          (Some True) (Inr (fileStat ''/tmp/Untitled.theia-workspace''))],
       demo_world0\<lparr>files := [(''/tmp/Untitled.theia-workspace'', workspaceFileText [''/a'', ''/b''])]\<rparr>))
   \<and> workspaceFileText [''/a'', ''/b'']
     = ''{\<newline>    "folders": [\<newline>        {\<newline>            "path": "/a"\<newline>        },\<newline>        {\<newline>            "path": "/b"\<newline>        }\<newline>    ]\<newline>}''\<close>
proof -
  let ?w = "demo_world0\<lparr>files := [(''/tmp/Untitled.theia-workspace'', ''old'')]\<rparr>"
  let ?u = "''/tmp/Untitled.theia-workspace''"
  have u: "workspaceService_getUntitledWorkspace demoHost ?w = (Inr ?u, ?w)"
    by code_simp
  have p: "Array_from_Set (map (\<lambda>stat. uri_path_toString demoHost (resource stat))
                              [dirStat ''/a'', dirStat ''/b'', dirStat ''/a'']) = [''/a'', ''/b'']"
    by code_simp
  have t: \<open>workspaceFileText [''/a'', ''/b'']
           = ''{\<newline>    "folders": [\<newline>        {\<newline>            "path": "/a"\<newline>        },\<newline>        {\<newline>            "path": "/b"\<newline>        }\<newline>    ]\<newline>}''\<close>
    by code_simp
  have c: "fileService_createFile demoHost ?u content (Some True) ?w
           = (Inr (fileStat ?u), demo_world0\<lparr>files := [(?u, content)]\<rparr>)" for content
    by (simp add: demoHost_def demo_world0_def)
  have r: "resource (fileStat ?u) = ?u" by (simp add: fileStat_def)
  have "createMultiRootWorkspace demoHost [dirStat ''/a'', dirStat ''/b'', dirStat ''/a''] ([], ?w)
        = (Inr ?u,
           ([WorkspaceService_getUntitledWorkspace (Inr ?u),
             FileService_createFile ?u (workspaceFileText [''/a'', ''/b'']) (Some True) (Inr (fileStat ?u))],
            demo_world0\<lparr>files := [(?u, workspaceFileText [''/a'', ''/b''])]\<rparr>))"
    using createMultiRootWorkspace_writes_distinct_folders[OF u c, where tr = "[]" and roots = "[dirStat ''/a'', dirStat ''/b'', dirStat ''/a'']",
            unfolded Let_def p, THEN conjunct1] r
    by simp
  then show ?thesis using t by (rule conjI)
qed

subsection \<open>Openable workspace URIs\<close>

lemma openUnlessCurrent_eq:
  "openUnlessCurrent h (Some ou) (tr, w)
   = (if (case workspaceService_workspace h w of None \<Rightarrow> True | Some ws \<Rightarrow> \<not> uri_isEqual h ou (resource ws))
      then (Inr (Some ou), (tr @ [WorkspaceService_open ou], workspaceService_open h ou w))
      else (Inr None, (tr, w)))"
  by (simp add: openUnlessCurrent_def)

lemma doOpenFolder_selected:
  assumes "workspaceService_roots h w = (Inr roots, w1)"
    and "fileDialogService_showOpenDialog h (case roots of [] \<Rightarrow> None | r # _ \<Rightarrow> Some r) w1
           = (Inr (Some targetFolders), w2)"
    and "getOpenableWorkspaceUri h targetFolders
           (tr @ [WorkspaceService_roots (Inr roots),
                  FileDialogService_showOpenDialog (case roots of [] \<Rightarrow> None | r # _ \<Rightarrow> Some r)
                    (Inr (Some targetFolders)),
                  Console_log [Uris (Some targetFolders)]], w2)
           = (Inr (Some ou), (tr3, w3))"
  shows "doOpenFolder h (tr, w)
         = (if (case workspaceService_workspace h w3 of
                  None \<Rightarrow> True | Some ws \<Rightarrow> \<not> uri_isEqual h ou (resource ws))
            then (Inr (Some ou),
                  (tr3 @ [Console_log [Uri (Some ou)], WorkspaceService_open ou],
                   workspaceService_open h ou w3))
            else (Inr None, (tr3 @ [Console_log [Uri (Some ou)]], w3)))"
  using assms by (simp add: doOpenFolder_def io_defs Let_def openUnlessCurrent_eq)

lemma resolveAll_events:
  "resolveAll h us (tr, w) = (Inr stats, (tr', w')) \<Longrightarrow>
   length stats = length us
   \<and> tr' = tr @ map (\<lambda>(uri, stat). FileService_resolve (Some uri) (Inr stat)) (zip us stats)"
proof (induction us arbitrary: tr w stats)
  case Nil
  then show ?case by (simp add: resolveAll_def io_return_def)
next
  case (Cons u us)
  obtain r w1 where r: "fileService_resolve h (Some u) w = (r, w1)"
    by (cases "fileService_resolve h (Some u) w")
  obtain rs s2 where rs: "resolveAll h us (tr @ [FileService_resolve (Some u) r], w1) = (rs, s2)"
    by (cases "resolveAll h us (tr @ [FileService_resolve (Some u) r], w1)")
  from Cons.prems r rs obtain x xs
    where x: "r = Inr x" "rs = Inr xs" "stats = x # xs" "s2 = (tr', w')"
    by (auto simp: resolveAll_def await_def split: sum.splits)
  from Cons.IH[of "tr @ [FileService_resolve (Some u) r]" w1 xs] rs x
  show ?case by simp
qed

lemma resolveAll_trace:
  "resolveAll h us (tr, w) = (res, (tr', w')) \<Longrightarrow>
   \<exists>rs. length rs = length us
      \<and> tr' = tr @ map (\<lambda>(uri, r). FileService_resolve (Some uri) r) (zip us rs)
      \<and> (case res of Inl e \<Rightarrow> Inl e \<in> set rs | Inr stats \<Rightarrow> rs = map Inr stats)"
proof (induction us arbitrary: tr w res tr' w')
  case Nil
  then show ?case by (auto simp: resolveAll_def io_return_def)
next
  case (Cons u us)
  obtain r w1 where r: "fileService_resolve h (Some u) w = (r, w1)"
    by (cases "fileService_resolve h (Some u) w")
  obtain rest tr2 w2
    where rest: "resolveAll h us (tr @ [FileService_resolve (Some u) r], w1) = (rest, (tr2, w2))"
    by (cases "resolveAll h us (tr @ [FileService_resolve (Some u) r], w1)") auto
  from Cons.IH[OF rest] obtain rs
    where rs: "length rs = length us"
      "tr2 = (tr @ [FileService_resolve (Some u) r])
               @ map (\<lambda>(uri, r). FileService_resolve (Some uri) r) (zip us rs)"
      "case rest of Inl e \<Rightarrow> Inl e \<in> set rs | Inr stats \<Rightarrow> rs = map Inr stats"
    by blast
  from Cons.prems r rest
  have out: "tr' = tr2" "w' = w2"
    "res = (case r of Inl e \<Rightarrow> Inl e
            | Inr x \<Rightarrow> (case rest of Inl e \<Rightarrow> Inl e | Inr xs \<Rightarrow> Inr (x # xs)))"
    by (auto simp: resolveAll_def await_def)
  have "length (r # rs) = length (u # us)" using rs(1) by simp
  moreover have "tr' = tr @ map (\<lambda>(uri, r). FileService_resolve (Some uri) r) (zip (u # us) (r # rs))"
    using out(1) rs(2) by simp
  moreover have "case res of Inl e \<Rightarrow> Inl e \<in> set (r # rs) | Inr stats \<Rightarrow> r # rs = map Inr stats"
    using out(3) rs(3) by (auto split: sum.splits)
  ultimately show ?case by blast
qed

lemma doOpenFolder_rejected:
  assumes "workspaceService_roots h w = (Inr roots, w1)"
    and "fileDialogService_showOpenDialog h (case roots of [] \<Rightarrow> None | r # _ \<Rightarrow> Some r) w1
           = (Inr (Some targetFolders), w2)"
    and "getOpenableWorkspaceUri h targetFolders
           (tr @ [WorkspaceService_roots (Inr roots),
                  FileDialogService_showOpenDialog (case roots of [] \<Rightarrow> None | r # _ \<Rightarrow> Some r)
                    (Inr (Some targetFolders)),
                  Console_log [Uris (Some targetFolders)]], w2)
           = (Inl e, s3)"
  shows "doOpenFolder h (tr, w) = (Inl e, s3)"
  using assms by (simp add: doOpenFolder_def io_defs Let_def)

text \<open>
  Claim C6, as the code has it: \<^verbatim>\<open>getOpenableWorkspaceUri\<close> returns a URI that is not an array
  unchanged; for an array with fewer than two elements its first element, or \<^verbatim>\<open>undefined\<close>
  when it is empty. For an array with two or more elements it asks the file service to
  resolve every one of them. When all resolve, it returns the resource of the one directory
  among them when there is exactly one, and otherwise the URI of a multi-root workspace file
  synthesised over the directories. When the resolution of one of them is rejected, it
  rejects with such a rejection, whatever the others resolved to, and synthesises nothing.
  \<^verbatim>\<open>doOpenFolder\<close> opens the URI obtained for the folders selected in the dialog and resolves
  to it when it differs from the URI of the current workspace (or no workspace is open);
  otherwise it opens nothing and resolves to \<^verbatim>\<open>undefined\<close>; and it rejects, opening nothing,
  when \<^verbatim>\<open>getOpenableWorkspaceUri\<close> rejects.
\<close>

theorem getOpenableWorkspaceUri_cases:
  "getOpenableWorkspaceUri h (Single u) s = (Inr (Some u), s)
   \<and> (length us < 2 \<longrightarrow>
        getOpenableWorkspaceUri h (Array us) s = (Inr (case us of [] \<Rightarrow> None | u # _ \<Rightarrow> Some u), s))
   \<and> (2 \<le> length us \<longrightarrow> resolveAll h us s = (Inr stats, s1) \<longrightarrow> filter isDirectory stats = [dir] \<longrightarrow>
        getOpenableWorkspaceUri h (Array us) s = (Inr (Some (resource dir)), s1))
   \<and> (2 \<le> length us \<longrightarrow> resolveAll h us s = (Inr stats, s1) \<longrightarrow> length (filter isDirectory stats) \<noteq> 1 \<longrightarrow>
        getOpenableWorkspaceUri h (Array us) s
        = (case createMultiRootWorkspace h (filter isDirectory stats) s1 of
             (Inl e, s2) \<Rightarrow> (Inl e, s2)
           | (Inr workspaceUri, s2) \<Rightarrow> (Inr (Some workspaceUri), s2)))
   \<and> (workspaceService_roots h w = (Inr roots, w1) \<longrightarrow>
        fileDialogService_showOpenDialog h (case roots of [] \<Rightarrow> None | r # _ \<Rightarrow> Some r) w1
          = (Inr (Some targetFolders), w2) \<longrightarrow>
        getOpenableWorkspaceUri h targetFolders
          (tr @ [WorkspaceService_roots (Inr roots),
                 FileDialogService_showOpenDialog (case roots of [] \<Rightarrow> None | r # _ \<Rightarrow> Some r)
                   (Inr (Some targetFolders)),
                 Console_log [Uris (Some targetFolders)]], w2)
          = (Inr (Some ou), (tr3, w3)) \<longrightarrow>
        doOpenFolder h (tr, w)
        = (if (case workspaceService_workspace h w3 of
                 None \<Rightarrow> True | Some ws \<Rightarrow> \<not> uri_isEqual h ou (resource ws))
           then (Inr (Some ou),
                 (tr3 @ [Console_log [Uri (Some ou)], WorkspaceService_open ou],
                  workspaceService_open h ou w3))
           else (Inr None, (tr3 @ [Console_log [Uri (Some ou)]], w3))))
   \<and> (resolveAll h us (tr, w) = (Inr stats, (tr', w')) \<longrightarrow>
        length stats = length us
        \<and> tr' = tr @ map (\<lambda>(uri, stat). FileService_resolve (Some uri) (Inr stat)) (zip us stats))
   \<and> (2 \<le> length us \<longrightarrow> resolveAll h us s = (Inl e, s1) \<longrightarrow>
        getOpenableWorkspaceUri h (Array us) s = (Inl e, s1))
   \<and> (resolveAll h us (tr, w) = (res, (tr', w')) \<longrightarrow>
        (\<exists>rs. length rs = length us
           \<and> tr' = tr @ map (\<lambda>(uri, r). FileService_resolve (Some uri) r) (zip us rs)
           \<and> (case res of Inl e \<Rightarrow> Inl e \<in> set rs | Inr stats \<Rightarrow> rs = map Inr stats)))
   \<and> (workspaceService_roots h w = (Inr roots, w1) \<longrightarrow>
        fileDialogService_showOpenDialog h (case roots of [] \<Rightarrow> None | r # _ \<Rightarrow> Some r) w1
          = (Inr (Some targetFolders), w2) \<longrightarrow>
        getOpenableWorkspaceUri h targetFolders
          (tr @ [WorkspaceService_roots (Inr roots),
                 FileDialogService_showOpenDialog (case roots of [] \<Rightarrow> None | r # _ \<Rightarrow> Some r)
                   (Inr (Some targetFolders)),
                 Console_log [Uris (Some targetFolders)]], w2)
          = (Inl e, s3) \<longrightarrow>
        doOpenFolder h (tr, w) = (Inl e, s3))"
proof -
  have a: "getOpenableWorkspaceUri h (Single u) s = (Inr (Some u), s)"
    by (simp add: getOpenableWorkspaceUri_def io_return_def)
  have b: "getOpenableWorkspaceUri h (Array us) s = (Inr (case us of [] \<Rightarrow> None | u # _ \<Rightarrow> Some u), s)"
    if "length us < 2"
    using that by (simp add: getOpenableWorkspaceUri_def io_return_def)
  have c: "getOpenableWorkspaceUri h (Array us) s = (Inr (Some (resource dir)), s1)"
    if "2 \<le> length us" "resolveAll h us s = (Inr stats, s1)" "filter isDirectory stats = [dir]"
    using that by (simp add: getOpenableWorkspaceUri_def io_defs Let_def)
  have d: "getOpenableWorkspaceUri h (Array us) s
        = (case createMultiRootWorkspace h (filter isDirectory stats) s1 of
             (Inl e, s2) \<Rightarrow> (Inl e, s2)
           | (Inr workspaceUri, s2) \<Rightarrow> (Inr (Some workspaceUri), s2))"
    if "2 \<le> length us" "resolveAll h us s = (Inr stats, s1)" "length (filter isDirectory stats) \<noteq> 1"
    using that
    by (simp add: getOpenableWorkspaceUri_def io_bind_def io_return_def Let_def
             split: prod.splits sum.splits)
  have g: "getOpenableWorkspaceUri h (Array us) s = (Inl e, s1)"
    if "2 \<le> length us" "resolveAll h us s = (Inl e, s1)"
    using that by (simp add: getOpenableWorkspaceUri_def io_bind_def)
  show ?thesis
    using a b c d g doOpenFolder_selected[of h w roots w1 targetFolders w2 tr ou tr3 w3]
          resolveAll_events[of h us tr w stats tr' w']
          resolveAll_trace[of h us tr w res tr' w']
          doOpenFolder_rejected[of h w roots w1 targetFolders w2 tr e s3]
    by (intro conjI impI) simp_all
qed


lemma demo_resolveAll:
  "resolveAll demoHost [''/a'', ''/f.txt''] (tr, demo_world1)
   = (Inr [dirStat ''/a'', fileStat ''/f.txt''],
      (tr @ [FileService_resolve (Some ''/a'') (Inr (dirStat ''/a'')),
             FileService_resolve (Some ''/f.txt'') (Inr (fileStat ''/f.txt''))],
       demo_world1))"
  by (simp add: resolveAll_def await_def io_return_def demoHost_def demo_world1_def demo_world0_def)

lemma demo_resolveAll_folders:
  "resolveAll demoHost [''/a'', ''/b''] (tr, demo_world1)
   = (Inr [dirStat ''/a'', dirStat ''/b''],
      (tr @ [FileService_resolve (Some ''/a'') (Inr (dirStat ''/a'')),
             FileService_resolve (Some ''/b'') (Inr (dirStat ''/b''))],
       demo_world1))"
  by (simp add: resolveAll_def await_def io_return_def demoHost_def demo_world1_def demo_world0_def)

lemma demo_resolveAll_rejected:
  "resolveAll demoHost [''/a'', ''/nope''] (tr, demo_world1\<lparr>openDialog := d\<rparr>)
   = (Inl (Error ''ENOENT''),
      (tr @ [FileService_resolve (Some ''/a'') (Inr (dirStat ''/a'')),
             FileService_resolve (Some ''/nope'') (Inl (Error ''ENOENT''))],
       demo_world1\<lparr>openDialog := d\<rparr>))"
  by (simp add: resolveAll_def await_def io_return_def demoHost_def demo_world1_def demo_world0_def)

lemma demo_createMultiRootWorkspace:
  "fst (createMultiRootWorkspace demoHost [dirStat ''/a'', dirStat ''/b''] (tr, demo_world1))
   = Inr ''/tmp/Untitled.theia-workspace''"
  by (simp add: createMultiRootWorkspace_def io_defs Let_def stringify_folders demoHost_def
      demo_world1_def demo_world0_def fileStat_def)

theorem getOpenableWorkspaceUri_cases_witness:
  "getOpenableWorkspaceUri demoHost (Single ''/f.txt'') ([], demo_world1) = (Inr (Some ''/f.txt''), ([], demo_world1))
   \<and> getOpenableWorkspaceUri demoHost (Array []) ([], demo_world1) = (Inr None, ([], demo_world1))
   \<and> getOpenableWorkspaceUri demoHost (Array [''/f.txt'']) ([], demo_world1)
       = (Inr (Some ''/f.txt''), ([], demo_world1))
   \<and> getOpenableWorkspaceUri demoHost (Array [''/a'', ''/f.txt'']) ([], demo_world1)
       = (Inr (Some ''/a''),
          ([FileService_resolve (Some ''/a'') (Inr (dirStat ''/a'')),
            FileService_resolve (Some ''/f.txt'') (Inr (fileStat ''/f.txt''))],
           demo_world1))
   \<and> fst (getOpenableWorkspaceUri demoHost (Array [''/a'', ''/b'']) ([], demo_world1))
       = Inr (Some ''/tmp/Untitled.theia-workspace'')
   \<and> doOpenFolder demoHost ([], demo_world1\<lparr>openDialog := Some (Single ''/a'')\<rparr>)
       = (Inr (Some ''/a''),
          ([WorkspaceService_roots (Inr []),
            FileDialogService_showOpenDialog None (Inr (Some (Single ''/a''))),
            Console_log [Uris (Some (Single ''/a''))],
            Console_log [Uri (Some ''/a'')],
            WorkspaceService_open ''/a''],
           demo_world1\<lparr>opened := Some ''/a'', openDialog := Some (Single ''/a'')\<rparr>))
   \<and> doOpenFolder demoHost ([], demo_world1\<lparr>opened := Some ''/a'', openDialog := Some (Single ''/a'')\<rparr>)
       = (Inr None,
          ([WorkspaceService_roots (Inr [dirStat ''/a'']),
            FileDialogService_showOpenDialog (Some (dirStat ''/a'')) (Inr (Some (Single ''/a''))),
            Console_log [Uris (Some (Single ''/a''))],
            Console_log [Uri (Some ''/a'')]],
           demo_world1\<lparr>opened := Some ''/a'', openDialog := Some (Single ''/a'')\<rparr>))
   \<and> getOpenableWorkspaceUri demoHost (Array [''/a'', ''/nope''])
         ([], demo_world1\<lparr>openDialog := None\<rparr>)
       = (Inl (Error ''ENOENT''),
          ([FileService_resolve (Some ''/a'') (Inr (dirStat ''/a'')),
            FileService_resolve (Some ''/nope'') (Inl (Error ''ENOENT''))],
           demo_world1\<lparr>openDialog := None\<rparr>))
   \<and> doOpenFolder demoHost ([], demo_world1\<lparr>openDialog := Some (Array [''/a'', ''/nope''])\<rparr>)
       = (Inl (Error ''ENOENT''),
          ([WorkspaceService_roots (Inr []),
            FileDialogService_showOpenDialog None (Inr (Some (Array [''/a'', ''/nope'']))),
            Console_log [Uris (Some (Array [''/a'', ''/nope'']))],
            FileService_resolve (Some ''/a'') (Inr (dirStat ''/a'')),
            FileService_resolve (Some ''/nope'') (Inl (Error ''ENOENT''))],
           demo_world1\<lparr>openDialog := Some (Array [''/a'', ''/nope''])\<rparr>))"
proof -
  note C = getOpenableWorkspaceUri_cases
  have 1: "getOpenableWorkspaceUri demoHost (Single ''/f.txt'') ([], demo_world1)
           = (Inr (Some ''/f.txt''), ([], demo_world1))"
    using C[where h = demoHost and u = "''/f.txt''" and s = "([], demo_world1)", THEN conjunct1] .
  have 2: "getOpenableWorkspaceUri demoHost (Array []) ([], demo_world1) = (Inr None, ([], demo_world1))"
    using C[where h = demoHost and us = "[]" and s = "([], demo_world1)",
              THEN conjunct2, THEN conjunct1]
    by simp
  have 3: "getOpenableWorkspaceUri demoHost (Array [''/f.txt'']) ([], demo_world1)
           = (Inr (Some ''/f.txt''), ([], demo_world1))"
    using C[where h = demoHost and us = "[''/f.txt'']" and s = "([], demo_world1)",
              THEN conjunct2, THEN conjunct1]
    by simp
  have 4: "getOpenableWorkspaceUri demoHost (Array [''/a'', ''/f.txt'']) ([], demo_world1)
       = (Inr (Some ''/a''),
          ([FileService_resolve (Some ''/a'') (Inr (dirStat ''/a'')),
            FileService_resolve (Some ''/f.txt'') (Inr (fileStat ''/f.txt''))],
           demo_world1))"
    using C[where h = demoHost and us = "[''/a'', ''/f.txt'']" and s = "([], demo_world1)"
                and stats = "[dirStat ''/a'', fileStat ''/f.txt'']" and dir = "dirStat ''/a''"
                and ?s1.0 = "([FileService_resolve (Some ''/a'') (Inr (dirStat ''/a'')),
                              FileService_resolve (Some ''/f.txt'') (Inr (fileStat ''/f.txt''))], demo_world1)",
              THEN conjunct2, THEN conjunct2, THEN conjunct1]
          demo_resolveAll[of "[]"]
    by (simp add: dirStat_def fileStat_def)
  have 5: "fst (getOpenableWorkspaceUri demoHost (Array [''/a'', ''/b'']) ([], demo_world1))
       = Inr (Some ''/tmp/Untitled.theia-workspace'')"
    using C[where h = demoHost and us = "[''/a'', ''/b'']" and s = "([], demo_world1)"
                and stats = "[dirStat ''/a'', dirStat ''/b'']"
                and ?s1.0 = "([FileService_resolve (Some ''/a'') (Inr (dirStat ''/a'')),
                              FileService_resolve (Some ''/b'') (Inr (dirStat ''/b''))], demo_world1)",
              THEN conjunct2, THEN conjunct2, THEN conjunct2, THEN conjunct1]
          demo_resolveAll_folders[of "[]"]
          demo_createMultiRootWorkspace[of "[FileService_resolve (Some ''/a'') (Inr (dirStat ''/a'')),
                              FileService_resolve (Some ''/b'') (Inr (dirStat ''/b''))]"]
    by (simp add: dirStat_def split: prod.splits sum.splits)
  let ?w6 = "demo_world1\<lparr>openDialog := Some (Single ''/a'')\<rparr>"
  have 6: "doOpenFolder demoHost ([], ?w6)
       = (Inr (Some ''/a''),
          ([WorkspaceService_roots (Inr []),
            FileDialogService_showOpenDialog None (Inr (Some (Single ''/a''))),
            Console_log [Uris (Some (Single ''/a''))],
            Console_log [Uri (Some ''/a'')],
            WorkspaceService_open ''/a''],
           demo_world1\<lparr>opened := Some ''/a'', openDialog := Some (Single ''/a'')\<rparr>))"
    using C[where h = demoHost and w = ?w6 and roots = "[]" and ?w1.0 = ?w6
                and targetFolders = "Single ''/a''" and ?w2.0 = ?w6 and tr = "[]" and ou = "''/a''"
                and ?tr3.0 = "[WorkspaceService_roots (Inr []),
                               FileDialogService_showOpenDialog None (Inr (Some (Single ''/a''))),
                               Console_log [Uris (Some (Single ''/a''))]]"
                and ?w3.0 = ?w6,
              THEN conjunct2, THEN conjunct2, THEN conjunct2, THEN conjunct2, THEN conjunct1]
          C[where h = demoHost and u = "''/a''"
                and s = "([WorkspaceService_roots (Inr []),
                               FileDialogService_showOpenDialog None (Inr (Some (Single ''/a''))),
                               Console_log [Uris (Some (Single ''/a''))]], ?w6)", THEN conjunct1]
    by (simp add: demoHost_def demo_world1_def demo_world0_def)
  let ?w7 = "demo_world1\<lparr>opened := Some ''/a'', openDialog := Some (Single ''/a'')\<rparr>"
  have 7: "doOpenFolder demoHost ([], ?w7)
       = (Inr None,
          ([WorkspaceService_roots (Inr [dirStat ''/a'']),
            FileDialogService_showOpenDialog (Some (dirStat ''/a'')) (Inr (Some (Single ''/a''))),
            Console_log [Uris (Some (Single ''/a''))],
            Console_log [Uri (Some ''/a'')]],
           ?w7))"
    using C[where h = demoHost and w = ?w7 and roots = "[dirStat ''/a'']" and ?w1.0 = ?w7
                and targetFolders = "Single ''/a''" and ?w2.0 = ?w7 and tr = "[]" and ou = "''/a''"
                and ?tr3.0 = "[WorkspaceService_roots (Inr [dirStat ''/a'']),
                               FileDialogService_showOpenDialog (Some (dirStat ''/a'')) (Inr (Some (Single ''/a''))),
                               Console_log [Uris (Some (Single ''/a''))]]"
                and ?w3.0 = ?w7,
              THEN conjunct2, THEN conjunct2, THEN conjunct2, THEN conjunct2, THEN conjunct1]
          C[where h = demoHost and u = "''/a''"
                and s = "([WorkspaceService_roots (Inr [dirStat ''/a'']),
                               FileDialogService_showOpenDialog (Some (dirStat ''/a'')) (Inr (Some (Single ''/a''))),
                               Console_log [Uris (Some (Single ''/a''))]], ?w7)", THEN conjunct1]
    by (simp add: demoHost_def demo_world1_def demo_world0_def dirStat_def)
  note G = C[THEN conjunct2, THEN conjunct2, THEN conjunct2, THEN conjunct2, THEN conjunct2,
             THEN conjunct2, THEN conjunct1]
  note I = C[THEN conjunct2, THEN conjunct2, THEN conjunct2, THEN conjunct2, THEN conjunct2,
             THEN conjunct2, THEN conjunct2, THEN conjunct2]
  have len: "2 \<le> length [''/a'', ''/nope'']" by simp
  have 8: "getOpenableWorkspaceUri demoHost (Array [''/a'', ''/nope''])
             (tr, demo_world1\<lparr>openDialog := d\<rparr>)
           = (Inl (Error ''ENOENT''),
              (tr @ [FileService_resolve (Some ''/a'') (Inr (dirStat ''/a'')),
                     FileService_resolve (Some ''/nope'') (Inl (Error ''ENOENT''))],
               demo_world1\<lparr>openDialog := d\<rparr>))" for tr d
    using G[rule_format, OF len demo_resolveAll_rejected[of tr d]] .
  let ?w9 = "demo_world1\<lparr>openDialog := Some (Array [''/a'', ''/nope''])\<rparr>"
  have r9: "workspaceService_roots demoHost ?w9 = (Inr [], ?w9)"
    by (simp add: demoHost_def demo_world1_def demo_world0_def)
  have d9: "fileDialogService_showOpenDialog demoHost (case [] of [] \<Rightarrow> None | r # x \<Rightarrow> Some r) ?w9
            = (Inr (Some (Array [''/a'', ''/nope''])), ?w9)"
    by (simp add: demoHost_def demo_world1_def demo_world0_def)
  have 9: "doOpenFolder demoHost ([], ?w9)
       = (Inl (Error ''ENOENT''),
          ([WorkspaceService_roots (Inr []),
            FileDialogService_showOpenDialog None (Inr (Some (Array [''/a'', ''/nope'']))),
            Console_log [Uris (Some (Array [''/a'', ''/nope'']))],
            FileService_resolve (Some ''/a'') (Inr (dirStat ''/a'')),
            FileService_resolve (Some ''/nope'') (Inl (Error ''ENOENT''))],
           ?w9))"
    using I[rule_format, OF r9 d9, of "[]" "Error ''ENOENT''"
            "([WorkspaceService_roots (Inr []),
               FileDialogService_showOpenDialog None (Inr (Some (Array [''/a'', ''/nope'']))),
               Console_log [Uris (Some (Array [''/a'', ''/nope'']))],
               FileService_resolve (Some ''/a'') (Inr (dirStat ''/a'')),
               FileService_resolve (Some ''/nope'') (Inl (Error ''ENOENT''))], ?w9)"]
          8[of "[WorkspaceService_roots (Inr []),
               FileDialogService_showOpenDialog None (Inr (Some (Array [''/a'', ''/nope'']))),
               Console_log [Uris (Some (Array [''/a'', ''/nope'']))]]" "Some (Array [''/a'', ''/nope''])"]
    by simp
  show ?thesis using 1 2 3 4 5 6 7 8[of "[]" None] 9 by (intro conjI) simp_all
qed

text \<open>
  The claim as the specification states it fails on an array in which exactly one URI
  resolves to a directory and another does not resolve: the outcome is the rejection of the
  second resolution, not the resource of the directory.
\<close>

theorem getOpenableWorkspaceUri_unresolved_counterexample:
  "getOpenableWorkspaceUri demoHost (Array [''/a'', ''/nope'']) ([], demo_world1)
   = (Inl (Error ''ENOENT''),
      ([FileService_resolve (Some ''/a'') (Inr (dirStat ''/a'')),
        FileService_resolve (Some ''/nope'') (Inl (Error ''ENOENT''))],
       demo_world1))"
  by (simp add: getOpenableWorkspaceUri_def resolveAll_def io_bind_def await_def io_return_def
      demoHost_def demo_world1_def demo_world0_def)


subsection \<open>Save workspace as\<close>

lemma saveWorkspaceAs_loop_reraise:
  assumes "fileDialogService_showSaveDialog h w = (Inr (Some sel), w1)"
    and "fileService_exists h (withWorkspaceExtension h sel) w1 = (Inr True, w2)"
    and "saveService_confirmOverwrite h (withWorkspaceExtension h sel) w2 = (Inr False, w3)"
  shows "saveWorkspaceAs_loop h exist overwrite (tr, w)
         = saveWorkspaceAs_loop h True False
             (tr @ [FileDialogService_showSaveDialog (Inr (Some sel)),
                    FileService_exists (withWorkspaceExtension h sel) (Inr True),
                    SaveService_confirmOverwrite (withWorkspaceExtension h sel) (Inr False)], w3)"
  by (subst saveWorkspaceAs_loop.simps) (simp add: await_def Let_def assms)

lemma saveWorkspaceAs_loop_flags:
  "saveWorkspaceAs_loop h exist overwrite s = saveWorkspaceAs_loop h exist' overwrite' s"
  by (simp add: saveWorkspaceAs_loop.simps[of h exist overwrite s]
                saveWorkspaceAs_loop.simps[of h exist' overwrite' s] Let_def
           split: prod.splits sum.splits option.splits)

lemma saveWorkspaceAs_loop_cancel:
  assumes "fileDialogService_showSaveDialog h w = (Inr None, w1)"
  shows "saveWorkspaceAs_loop h exist overwrite (tr, w)
         = Some (Inr None, (tr @ [FileDialogService_showSaveDialog (Inr None)], w1))"
  by (subst saveWorkspaceAs_loop.simps) (simp add: await_def Let_def assms)

lemma saveWorkspaceAs_loop_fresh:
  assumes "fileDialogService_showSaveDialog h w = (Inr (Some sel), w1)"
    and "fileService_exists h (withWorkspaceExtension h sel) w1 = (Inr False, w2)"
  shows "saveWorkspaceAs_loop h exist overwrite (tr, w)
         = Some (Inr (Some (withWorkspaceExtension h sel)),
                 (tr @ [FileDialogService_showSaveDialog (Inr (Some sel)),
                        FileService_exists (withWorkspaceExtension h sel) (Inr False)], w2))"
  by (subst saveWorkspaceAs_loop.simps) (simp add: await_def Let_def assms)

lemma saveWorkspaceAs_loop_confirmed:
  assumes "fileDialogService_showSaveDialog h w = (Inr (Some sel), w1)"
    and "fileService_exists h (withWorkspaceExtension h sel) w1 = (Inr True, w2)"
    and "saveService_confirmOverwrite h (withWorkspaceExtension h sel) w2 = (Inr True, w3)"
  shows "saveWorkspaceAs_loop h exist overwrite (tr, w)
         = Some (Inr (Some (withWorkspaceExtension h sel)),
                 (tr @ [FileDialogService_showSaveDialog (Inr (Some sel)),
                        FileService_exists (withWorkspaceExtension h sel) (Inr True),
                        SaveService_confirmOverwrite (withWorkspaceExtension h sel) (Inr True)], w3))"
  by (subst saveWorkspaceAs_loop.simps) (simp add: await_def Let_def assms)

lemma saveWorkspaceAs_loop_selected:
  assumes "saveWorkspaceAs_loop h exist overwrite s = Some (Inr (Some selected), s')"
  shows "\<exists>tr0 sel. selected = withWorkspaceExtension h sel
           \<and> (fst s' = tr0 @ [FileDialogService_showSaveDialog (Inr (Some sel)),
                              FileService_exists selected (Inr False)]
              \<or> fst s' = tr0 @ [FileDialogService_showSaveDialog (Inr (Some sel)),
                                 FileService_exists selected (Inr True),
                                 SaveService_confirmOverwrite selected (Inr True)])"
  using assms
proof (induction h exist overwrite s "(Inr (Some selected) :: error + 'a option, s')"
        rule: saveWorkspaceAs_loop.raw_induct[rotated 1, consumes 1])
  case (1 loop h exist overwrite s)
  obtain tr w where s: "s = (tr, w)" by (cases s)
  obtain r1 w1 where d: "fileDialogService_showSaveDialog h w = (r1, w1)"
    by (cases "fileDialogService_showSaveDialog h w")
  show ?case
  proof (cases r1)
    case (Inl e)
    then show ?thesis using 1(2) s d by (simp add: await_def)
  next
    case (Inr o1)
    show ?thesis
    proof (cases o1)
      case None
      then show ?thesis using 1(2) s d Inr by (simp add: await_def)
    next
      case (Some sel)
      let ?x = "withWorkspaceExtension h sel"
      obtain r2 w2 where e: "fileService_exists h ?x w1 = (r2, w2)"
        by (cases "fileService_exists h ?x w1")
      show ?thesis
      proof (cases r2)
        case (Inl e2)
        then show ?thesis using 1(2) s d Inr Some e by (simp add: await_def Let_def)
      next
        case ex: (Inr exist')
        show ?thesis
        proof (cases exist')
          case False
          then show ?thesis using 1(2) s d Inr Some e ex
            by (auto simp: await_def Let_def)
        next
          case True
          obtain r3 w3 where c: "saveService_confirmOverwrite h ?x w2 = (r3, w3)"
            by (cases "saveService_confirmOverwrite h ?x w2")
          show ?thesis
          proof (cases r3)
            case (Inl e3)
            then show ?thesis using 1(2) s d Inr Some e ex True c by (simp add: await_def Let_def)
          next
            case ow: (Inr overwrite')
            show ?thesis
            proof (cases overwrite')
              case True
              then show ?thesis using 1(2) s d Inr Some e ex \<open>exist'\<close> c ow
                by (auto simp: await_def Let_def)
            next
              case False
              then have "loop h True False
                           (tr @ [FileDialogService_showSaveDialog (Inr (Some sel)),
                                  FileService_exists ?x (Inr True),
                                  SaveService_confirmOverwrite ?x (Inr False)], w3)
                         = Some (Inr (Some selected), s')"
                using 1(2) s d Inr Some e ex \<open>exist'\<close> c ow by (simp add: await_def Let_def)
              then show ?thesis by (rule 1(1))
            qed
          qed
        qed
      qed
    qed
  qed
qed


lemma saveWorkspaceAs_save:
  assumes "saveWorkspaceAs_loop h False False s = Some (Inr (Some selected), (tr1, w1))"
    and "workspaceService_save h selected w1 = (r, w2)"
  shows \<open>saveWorkspaceAs h s
         = Some (case r of
                   Inl e \<Rightarrow>
                     (Inr False,
                      (tr1 @ [WorkspaceService_save selected (Inl e),
                              MessageService_error
                                (nls_localizeByDefault h (''Unable to save workspace \'{0}'' @ [CHR 0x27])
                                   [uri_path_fsPath h selected])], w2))
                 | Inr u \<Rightarrow> (Inr True, (tr1 @ [WorkspaceService_save selected (Inr ())], w2)))\<close>
  using assms by (cases r) (simp_all add: saveWorkspaceAs_def io_defs)

lemma saveWorkspaceAs_True:
  assumes "saveWorkspaceAs h s = Some (Inr True, s')"
  shows "\<exists>tr0 sel.
           fst s' = tr0 @ [FileDialogService_showSaveDialog (Inr (Some sel)),
                           FileService_exists (withWorkspaceExtension h sel) (Inr False),
                           WorkspaceService_save (withWorkspaceExtension h sel) (Inr ())]
         \<or> fst s' = tr0 @ [FileDialogService_showSaveDialog (Inr (Some sel)),
                           FileService_exists (withWorkspaceExtension h sel) (Inr True),
                           SaveService_confirmOverwrite (withWorkspaceExtension h sel) (Inr True),
                           WorkspaceService_save (withWorkspaceExtension h sel) (Inr ())]"
proof -
  from assms obtain selected tr1 w1
    where l: "saveWorkspaceAs_loop h False False s = Some (Inr (Some selected), (tr1, w1))"
    by (auto simp: saveWorkspaceAs_def split: option.splits prod.splits sum.splits)
  obtain r w2 where sv: "workspaceService_save h selected w1 = (r, w2)"
    by (cases "workspaceService_save h selected w1")
  from assms saveWorkspaceAs_save[OF l sv]
  have s': "fst s' = tr1 @ [WorkspaceService_save selected (Inr ())]"
    by (cases r) auto
  from saveWorkspaceAs_loop_selected[OF l] s' show ?thesis
    by auto
qed

text \<open>
  Claim C5: \<^verbatim>\<open>saveWorkspaceAs\<close> raises the save dialog again after a round in which the user
  selected a URI that exists and declined to overwrite it; it resolves to \<^verbatim>\<open>true\<close> only after
  \<^verbatim>\<open>workspaceService.save\<close> succeeded on a selected URI that did not exist or whose overwrite
  was confirmed; it resolves to \<^verbatim>\<open>false\<close> when the user cancels the dialog, and when the save
  throws, in which case an error message is shown; and a selection whose display name has
  no workspace file extension gets the default extension before its existence is checked.
\<close>

theorem saveWorkspaceAs_flow:
  \<open>(fileDialogService_showSaveDialog h w = (Inr (Some sel), w1) \<longrightarrow>
     fileService_exists h (withWorkspaceExtension h sel) w1 = (Inr True, w2) \<longrightarrow>
     saveService_confirmOverwrite h (withWorkspaceExtension h sel) w2 = (Inr False, w3) \<longrightarrow>
     saveWorkspaceAs h (tr, w)
     = saveWorkspaceAs h
         (tr @ [FileDialogService_showSaveDialog (Inr (Some sel)),
                FileService_exists (withWorkspaceExtension h sel) (Inr True),
                SaveService_confirmOverwrite (withWorkspaceExtension h sel) (Inr False)], w3))
   \<and> (saveWorkspaceAs h s = Some (Inr True, s') \<longrightarrow>
       (\<exists>tr0 sel.
           fst s' = tr0 @ [FileDialogService_showSaveDialog (Inr (Some sel)),
                           FileService_exists (withWorkspaceExtension h sel) (Inr False),
                           WorkspaceService_save (withWorkspaceExtension h sel) (Inr ())]
         \<or> fst s' = tr0 @ [FileDialogService_showSaveDialog (Inr (Some sel)),
                           FileService_exists (withWorkspaceExtension h sel) (Inr True),
                           SaveService_confirmOverwrite (withWorkspaceExtension h sel) (Inr True),
                           WorkspaceService_save (withWorkspaceExtension h sel) (Inr ())]))
   \<and> (fileDialogService_showSaveDialog h w = (Inr None, w1) \<longrightarrow>
       saveWorkspaceAs h (tr, w)
       = Some (Inr False, (tr @ [FileDialogService_showSaveDialog (Inr None)], w1)))
   \<and> (fileDialogService_showSaveDialog h w = (Inr (Some sel), w1) \<longrightarrow>
       fileService_exists h (withWorkspaceExtension h sel) w1 = (Inr False, w2) \<longrightarrow>
       workspaceService_save h (withWorkspaceExtension h sel) w2 = (r, w3) \<longrightarrow>
       saveWorkspaceAs h (tr, w)
       = Some (case r of
                 Inl e \<Rightarrow>
                   (Inr False,
                    (tr @ [FileDialogService_showSaveDialog (Inr (Some sel)),
                           FileService_exists (withWorkspaceExtension h sel) (Inr False),
                           WorkspaceService_save (withWorkspaceExtension h sel) (Inl e),
                           MessageService_error
                             (nls_localizeByDefault h (''Unable to save workspace \'{0}'' @ [CHR 0x27])
                                [uri_path_fsPath h (withWorkspaceExtension h sel)])], w3))
               | Inr u \<Rightarrow>
                   (Inr True,
                    (tr @ [FileDialogService_showSaveDialog (Inr (Some sel)),
                           FileService_exists (withWorkspaceExtension h sel) (Inr False),
                           WorkspaceService_save (withWorkspaceExtension h sel) (Inr ())], w3))))
   \<and> (fileDialogService_showSaveDialog h w = (Inr (Some sel), w1) \<longrightarrow>
       fileService_exists h (withWorkspaceExtension h sel) w1 = (Inr True, w2) \<longrightarrow>
       saveService_confirmOverwrite h (withWorkspaceExtension h sel) w2 = (Inr True, w3) \<longrightarrow>
       workspaceService_save h (withWorkspaceExtension h sel) w3 = (r, w4) \<longrightarrow>
       saveWorkspaceAs h (tr, w)
       = Some (case r of
                 Inl e \<Rightarrow>
                   (Inr False,
                    (tr @ [FileDialogService_showSaveDialog (Inr (Some sel)),
                           FileService_exists (withWorkspaceExtension h sel) (Inr True),
                           SaveService_confirmOverwrite (withWorkspaceExtension h sel) (Inr True),
                           WorkspaceService_save (withWorkspaceExtension h sel) (Inl e),
                           MessageService_error
                             (nls_localizeByDefault h (''Unable to save workspace \'{0}'' @ [CHR 0x27])
                                [uri_path_fsPath h (withWorkspaceExtension h sel)])], w4))
               | Inr u \<Rightarrow>
                   (Inr True,
                    (tr @ [FileDialogService_showSaveDialog (Inr (Some sel)),
                           FileService_exists (withWorkspaceExtension h sel) (Inr True),
                           SaveService_confirmOverwrite (withWorkspaceExtension h sel) (Inr True),
                           WorkspaceService_save (withWorkspaceExtension h sel) (Inr ())], w4))))
   \<and> (\<not> list_ex (endsWith (uri_displayName h sel)) (getWorkspaceFileExtensions h) \<longrightarrow>
       defaultFileTypeIndex h < length (getWorkspaceFileExtensions h) \<longrightarrow>
       withWorkspaceExtension h sel
       = uri_resolve h (uri_parent h sel)
           (uri_displayName h sel @ getWorkspaceFileExtensions h ! defaultFileTypeIndex h))
   \<and> (list_ex (endsWith (uri_displayName h sel)) (getWorkspaceFileExtensions h) \<longrightarrow>
       withWorkspaceExtension h sel = sel)\<close>
proof -
  let ?x = "withWorkspaceExtension h sel"
  have a: "saveWorkspaceAs h (tr, w)
     = saveWorkspaceAs h
         (tr @ [FileDialogService_showSaveDialog (Inr (Some sel)),
                FileService_exists ?x (Inr True),
                SaveService_confirmOverwrite ?x (Inr False)], w3)"
    if "fileDialogService_showSaveDialog h w = (Inr (Some sel), w1)"
       "fileService_exists h ?x w1 = (Inr True, w2)"
       "saveService_confirmOverwrite h ?x w2 = (Inr False, w3)"
  proof -
    have "saveWorkspaceAs_loop h False False (tr, w)
          = saveWorkspaceAs_loop h True False
              (tr @ [FileDialogService_showSaveDialog (Inr (Some sel)),
                     FileService_exists ?x (Inr True),
                     SaveService_confirmOverwrite ?x (Inr False)], w3)"
      using saveWorkspaceAs_loop_reraise[OF that] .
    also have "\<dots> = saveWorkspaceAs_loop h False False
              (tr @ [FileDialogService_showSaveDialog (Inr (Some sel)),
                     FileService_exists ?x (Inr True),
                     SaveService_confirmOverwrite ?x (Inr False)], w3)"
      by (rule saveWorkspaceAs_loop_flags)
    finally show ?thesis by (simp add: saveWorkspaceAs_def)
  qed
  have b: "\<exists>tr0 sel.
           fst s' = tr0 @ [FileDialogService_showSaveDialog (Inr (Some sel)),
                           FileService_exists (withWorkspaceExtension h sel) (Inr False),
                           WorkspaceService_save (withWorkspaceExtension h sel) (Inr ())]
         \<or> fst s' = tr0 @ [FileDialogService_showSaveDialog (Inr (Some sel)),
                           FileService_exists (withWorkspaceExtension h sel) (Inr True),
                           SaveService_confirmOverwrite (withWorkspaceExtension h sel) (Inr True),
                           WorkspaceService_save (withWorkspaceExtension h sel) (Inr ())]"
    if "saveWorkspaceAs h s = Some (Inr True, s')"
    using saveWorkspaceAs_True[OF that] .
  have c: "saveWorkspaceAs h (tr, w)
       = Some (Inr False, (tr @ [FileDialogService_showSaveDialog (Inr None)], w1))"
    if "fileDialogService_showSaveDialog h w = (Inr None, w1)"
    using saveWorkspaceAs_loop_cancel[OF that, of False False tr]
    by (simp add: saveWorkspaceAs_def)
  have d: \<open>fileDialogService_showSaveDialog h w = (Inr (Some sel), w1) \<Longrightarrow>
       fileService_exists h ?x w1 = (Inr False, w2) \<Longrightarrow>
       workspaceService_save h ?x w2 = (r, w3) \<Longrightarrow> saveWorkspaceAs h (tr, w) = Some (case r of
                 Inl e \<Rightarrow>
                   (Inr False,
                    (tr @ [FileDialogService_showSaveDialog (Inr (Some sel)),
                           FileService_exists (withWorkspaceExtension h sel) (Inr False),
                           WorkspaceService_save (withWorkspaceExtension h sel) (Inl e),
                           MessageService_error
                             (nls_localizeByDefault h (''Unable to save workspace \'{0}'' @ [CHR 0x27])
                                [uri_path_fsPath h (withWorkspaceExtension h sel)])], w3))
               | Inr u \<Rightarrow>
                   (Inr True,
                    (tr @ [FileDialogService_showSaveDialog (Inr (Some sel)),
                           FileService_exists (withWorkspaceExtension h sel) (Inr False),
                           WorkspaceService_save (withWorkspaceExtension h sel) (Inr ())], w3)))\<close> for r w3
    using saveWorkspaceAs_save[OF saveWorkspaceAs_loop_fresh[of h w sel w1 w2 False False tr], of r w3]
    by (cases r) simp_all
  have e: \<open>fileDialogService_showSaveDialog h w = (Inr (Some sel), w1) \<Longrightarrow>
       fileService_exists h ?x w1 = (Inr True, w2) \<Longrightarrow>
       saveService_confirmOverwrite h ?x w2 = (Inr True, w3) \<Longrightarrow>
       workspaceService_save h ?x w3 = (r, w4) \<Longrightarrow> saveWorkspaceAs h (tr, w) = Some (case r of
                 Inl e \<Rightarrow>
                   (Inr False,
                    (tr @ [FileDialogService_showSaveDialog (Inr (Some sel)),
                           FileService_exists (withWorkspaceExtension h sel) (Inr True),
                           SaveService_confirmOverwrite (withWorkspaceExtension h sel) (Inr True),
                           WorkspaceService_save (withWorkspaceExtension h sel) (Inl e),
                           MessageService_error
                             (nls_localizeByDefault h (''Unable to save workspace \'{0}'' @ [CHR 0x27])
                                [uri_path_fsPath h (withWorkspaceExtension h sel)])], w4))
               | Inr u \<Rightarrow>
                   (Inr True,
                    (tr @ [FileDialogService_showSaveDialog (Inr (Some sel)),
                           FileService_exists (withWorkspaceExtension h sel) (Inr True),
                           SaveService_confirmOverwrite (withWorkspaceExtension h sel) (Inr True),
                           WorkspaceService_save (withWorkspaceExtension h sel) (Inr ())], w4)))\<close> for r w3 w4
    using saveWorkspaceAs_save[OF saveWorkspaceAs_loop_confirmed[of h w sel w1 w2 w3 False False tr], of r w4]
    by (cases r) simp_all
  have f: "withWorkspaceExtension h sel
       = uri_resolve h (uri_parent h sel)
           (uri_displayName h sel @ getWorkspaceFileExtensions h ! defaultFileTypeIndex h)"
    if "\<not> list_ex (endsWith (uri_displayName h sel)) (getWorkspaceFileExtensions h)"
       "defaultFileTypeIndex h < length (getWorkspaceFileExtensions h)"
    using that by (simp add: withWorkspaceExtension_def Let_def)
  have g: "withWorkspaceExtension h sel = sel"
    if "list_ex (endsWith (uri_displayName h sel)) (getWorkspaceFileExtensions h)"
    using that by (simp add: withWorkspaceExtension_def Let_def)
  show ?thesis
    using a b c d[of r w3] e[of w3 r w4] f g by (intro conjI impI)
qed


theorem saveWorkspaceAs_flow_witness:
  \<open>saveWorkspaceAs demoHost ([], demo_world2)
   = Some (Inr True,
           ([FileDialogService_showSaveDialog (Inr (Some ''/ws/old.theia-workspace'')),
             FileService_exists ''/ws/old.theia-workspace'' (Inr True),
             SaveService_confirmOverwrite ''/ws/old.theia-workspace'' (Inr False),
             FileDialogService_showSaveDialog (Inr (Some ''/ws/new'')),
             FileService_exists ''/ws/new.theia-workspace'' (Inr False),
             WorkspaceService_save ''/ws/new.theia-workspace'' (Inr ())],
            demo_world2\<lparr>saveDialog := [], overwriteAnswers := [],
                         saved := [''/ws/new.theia-workspace'']\<rparr>))
   \<and> (\<exists>tr0 sel.
         [FileDialogService_showSaveDialog (Inr (Some ''/ws/old.theia-workspace'')),
          FileService_exists ''/ws/old.theia-workspace'' (Inr True),
          SaveService_confirmOverwrite ''/ws/old.theia-workspace'' (Inr False),
          FileDialogService_showSaveDialog (Inr (Some ''/ws/new'')),
          FileService_exists ''/ws/new.theia-workspace'' (Inr False),
          WorkspaceService_save ''/ws/new.theia-workspace'' (Inr ())]
         = tr0 @ [FileDialogService_showSaveDialog (Inr (Some sel)),
                  FileService_exists (withWorkspaceExtension demoHost sel) (Inr False),
                  WorkspaceService_save (withWorkspaceExtension demoHost sel) (Inr ())])
   \<and> saveWorkspaceAs demoHost ([], demo_world0)
     = Some (Inr False, ([FileDialogService_showSaveDialog (Inr None)], demo_world0))
   \<and> saveWorkspaceAs readOnlyHost ([], demo_world0\<lparr>saveDialog := [Some ''/ws/new'']\<rparr>)
     = Some (Inr False,
             ([FileDialogService_showSaveDialog (Inr (Some ''/ws/new'')),
               FileService_exists ''/ws/new.theia-workspace'' (Inr False),
               WorkspaceService_save ''/ws/new.theia-workspace'' (Inl (Error ''EACCES'')),
               MessageService_error (''Unable to save workspace \'{0}'' @ [CHR 0x27])],
              demo_world0))
   \<and> saveWorkspaceAs demoHost ([], demo_world2\<lparr>overwriteAnswers := [True]\<rparr>)
     = Some (Inr True,
             ([FileDialogService_showSaveDialog (Inr (Some ''/ws/old.theia-workspace'')),
               FileService_exists ''/ws/old.theia-workspace'' (Inr True),
               SaveService_confirmOverwrite ''/ws/old.theia-workspace'' (Inr True),
               WorkspaceService_save ''/ws/old.theia-workspace'' (Inr ())],
              demo_world2\<lparr>saveDialog := [Some ''/ws/new''], overwriteAnswers := [],
                           saved := [''/ws/old.theia-workspace'']\<rparr>))
   \<and> withWorkspaceExtension demoHost ''/ws/new'' = ''/ws/new.theia-workspace''
   \<and> withWorkspaceExtension demoHost ''/ws/old.theia-workspace'' = ''/ws/old.theia-workspace''\<close>
proof -
  note F = saveWorkspaceAs_flow
  let ?old = "''/ws/old.theia-workspace''"
  let ?new = "''/ws/new.theia-workspace''"
  let ?w1 = "demo_world2\<lparr>saveDialog := [Some ''/ws/new'']\<rparr>"
  let ?w2 = "demo_world2\<lparr>saveDialog := [Some ''/ws/new''], overwriteAnswers := []\<rparr>"
  let ?w3 = "demo_world2\<lparr>saveDialog := [], overwriteAnswers := []\<rparr>"
  let ?w4 = "demo_world2\<lparr>saveDialog := [], overwriteAnswers := [], saved := [?new]\<rparr>"
  let ?tr3 = "[FileDialogService_showSaveDialog (Inr (Some ?old)),
               FileService_exists ?old (Inr True),
               SaveService_confirmOverwrite ?old (Inr False)] :: string event list"
  have ext: "list_ex (endsWith (uri_displayName demoHost ?old)) (getWorkspaceFileExtensions demoHost)"
            "\<not> list_ex (endsWith (uri_displayName demoHost ''/ws/new'')) (getWorkspaceFileExtensions demoHost)"
            "defaultFileTypeIndex demoHost < length (getWorkspaceFileExtensions demoHost)"
    by code_simp+
  have new: "uri_resolve demoHost (uri_parent demoHost ''/ws/new'')
               (uri_displayName demoHost ''/ws/new''
                @ getWorkspaceFileExtensions demoHost ! defaultFileTypeIndex demoHost) = ?new"
    by code_simp
  have x_new: "withWorkspaceExtension demoHost ''/ws/new'' = ?new"
    using F[where h = demoHost and sel = "''/ws/new''", THEN conjunct2, THEN conjunct2, THEN conjunct2,
            THEN conjunct2, THEN conjunct2, THEN conjunct1] ext new
    by simp
  have x_old: "withWorkspaceExtension demoHost ?old = ?old"
    using F[where h = demoHost and sel = ?old, THEN conjunct2, THEN conjunct2, THEN conjunct2,
            THEN conjunct2, THEN conjunct2, THEN conjunct2] ext
    by simp
  have d1: "fileDialogService_showSaveDialog demoHost demo_world2 = (Inr (Some ?old), ?w1)"
    by (simp add: demoHost_def demo_world2_def)
  have e1: "fileService_exists demoHost ?old ?w1 = (Inr True, ?w1)"
    by (simp add: demoHost_def demo_world2_def demo_world0_def)
  have c1: "saveService_confirmOverwrite demoHost ?old ?w1 = (Inr False, ?w2)"
    by (simp add: demoHost_def demo_world2_def demo_world0_def)
  have d2: "fileDialogService_showSaveDialog demoHost ?w2 = (Inr (Some ''/ws/new''), ?w3)"
    by (simp add: demoHost_def demo_world2_def)
  have e2: "fileService_exists demoHost ?new ?w3 = (Inr False, ?w3)"
    by (simp add: demoHost_def demo_world2_def demo_world0_def)
  have s2: "workspaceService_save demoHost ?new ?w3 = (Inr (), ?w4)"
    by (simp add: demoHost_def demo_world2_def demo_world0_def)
  have round1: "saveWorkspaceAs demoHost ([], demo_world2) = saveWorkspaceAs demoHost (?tr3, ?w2)"
    using F[where h = demoHost and w = demo_world2 and sel = ?old and ?w1.0 = ?w1 and ?w2.0 = ?w1
              and ?w3.0 = ?w2 and tr = "[]", THEN conjunct1]
          d1 e1 c1 x_old
    by simp
  have round2: "saveWorkspaceAs demoHost (?tr3, ?w2)
                = Some (Inr True,
                        (?tr3 @ [FileDialogService_showSaveDialog (Inr (Some ''/ws/new'')),
                                 FileService_exists ?new (Inr False),
                                 WorkspaceService_save ?new (Inr ())], ?w4))"
    using F[where h = demoHost and w = ?w2 and sel = "''/ws/new''" and ?w1.0 = ?w3 and ?w2.0 = ?w3
              and r = "Inr ()" and ?w3.0 = ?w4 and tr = ?tr3,
            THEN conjunct2, THEN conjunct2, THEN conjunct2, THEN conjunct1]
          d2 e2 s2 x_new
    by simp
  have A: "saveWorkspaceAs demoHost ([], demo_world2)
           = Some (Inr True,
                   ([FileDialogService_showSaveDialog (Inr (Some ?old)),
                     FileService_exists ?old (Inr True),
                     SaveService_confirmOverwrite ?old (Inr False),
                     FileDialogService_showSaveDialog (Inr (Some ''/ws/new'')),
                     FileService_exists ?new (Inr False),
                     WorkspaceService_save ?new (Inr ())], ?w4))"
    using round1 round2 by simp
  have B: "\<exists>tr0 sel.
         [FileDialogService_showSaveDialog (Inr (Some ?old)),
          FileService_exists ?old (Inr True),
          SaveService_confirmOverwrite ?old (Inr False),
          FileDialogService_showSaveDialog (Inr (Some ''/ws/new'')),
          FileService_exists ?new (Inr False),
          WorkspaceService_save ?new (Inr ())]
         = tr0 @ [FileDialogService_showSaveDialog (Inr (Some sel)),
                  FileService_exists (withWorkspaceExtension demoHost sel) (Inr False),
                  WorkspaceService_save (withWorkspaceExtension demoHost sel) (Inr ())]"
    using F[where h = demoHost and s = "([], demo_world2)"
              and s' = "([FileDialogService_showSaveDialog (Inr (Some ?old)),
                          FileService_exists ?old (Inr True),
                          SaveService_confirmOverwrite ?old (Inr False),
                          FileDialogService_showSaveDialog (Inr (Some ''/ws/new'')),
                          FileService_exists ?new (Inr False),
                          WorkspaceService_save ?new (Inr ())], ?w4)",
            THEN conjunct2, THEN conjunct1] A
    by auto
  have d0: "fileDialogService_showSaveDialog demoHost demo_world0 = (Inr None, demo_world0)"
    by (simp add: demoHost_def demo_world0_def)
  have C: "saveWorkspaceAs demoHost ([], demo_world0)
           = Some (Inr False, ([FileDialogService_showSaveDialog (Inr None)], demo_world0))"
    using F[where h = demoHost and w = demo_world0 and ?w1.0 = demo_world0 and tr = "[]",
            THEN conjunct2, THEN conjunct2, THEN conjunct1] d0
    by simp
  let ?v = "demo_world0\<lparr>saveDialog := [Some ''/ws/new'']\<rparr>"
  have xr: "withWorkspaceExtension readOnlyHost ''/ws/new'' = ?new"
    by code_simp
  have dr: "fileDialogService_showSaveDialog readOnlyHost ?v = (Inr (Some ''/ws/new''), demo_world0)"
    by (simp add: readOnlyHost_def demoHost_def demo_world0_def)
  have er: "fileService_exists readOnlyHost ?new demo_world0 = (Inr False, demo_world0)"
    by (simp add: readOnlyHost_def demoHost_def demo_world0_def)
  have sr: "workspaceService_save readOnlyHost ?new demo_world0 = (Inl (Error ''EACCES''), demo_world0)"
    by (simp add: readOnlyHost_def demoHost_def demo_world0_def)
  have mr: \<open>nls_localizeByDefault readOnlyHost (''Unable to save workspace \'{0}'' @ [CHR 0x27])
              [uri_path_fsPath readOnlyHost ?new]
            = ''Unable to save workspace \'{0}'' @ [CHR 0x27]\<close>
    by (simp add: readOnlyHost_def demoHost_def)
  have D: \<open>saveWorkspaceAs readOnlyHost ([], ?v)
     = Some (Inr False,
             ([FileDialogService_showSaveDialog (Inr (Some ''/ws/new'')),
               FileService_exists ?new (Inr False),
               WorkspaceService_save ?new (Inl (Error ''EACCES'')),
               MessageService_error (''Unable to save workspace \'{0}'' @ [CHR 0x27])],
              demo_world0))\<close>
    using F[where h = readOnlyHost and w = ?v and sel = "''/ws/new''" and ?w1.0 = demo_world0
              and ?w2.0 = demo_world0 and r = "Inl (Error ''EACCES'')" and ?w3.0 = demo_world0
              and tr = "[]",
            THEN conjunct2, THEN conjunct2, THEN conjunct2, THEN conjunct1]
          dr er sr xr mr
    by simp
  let ?y = "demo_world2\<lparr>overwriteAnswers := [True]\<rparr>"
  let ?y1 = "demo_world2\<lparr>saveDialog := [Some ''/ws/new''], overwriteAnswers := [True]\<rparr>"
  let ?y2 = "demo_world2\<lparr>saveDialog := [Some ''/ws/new''], overwriteAnswers := []\<rparr>"
  let ?y3 = "demo_world2\<lparr>saveDialog := [Some ''/ws/new''], overwriteAnswers := [], saved := [?old]\<rparr>"
  have dy: "fileDialogService_showSaveDialog demoHost ?y = (Inr (Some ?old), ?y1)"
    by (simp add: demoHost_def demo_world2_def)
  have ey: "fileService_exists demoHost ?old ?y1 = (Inr True, ?y1)"
    by (simp add: demoHost_def demo_world2_def demo_world0_def)
  have cy: "saveService_confirmOverwrite demoHost ?old ?y1 = (Inr True, ?y2)"
    by (simp add: demoHost_def demo_world2_def demo_world0_def)
  have sy: "workspaceService_save demoHost ?old ?y2 = (Inr (), ?y3)"
    by (simp add: demoHost_def demo_world2_def demo_world0_def)
  have E: "saveWorkspaceAs demoHost ([], ?y)
     = Some (Inr True,
             ([FileDialogService_showSaveDialog (Inr (Some ?old)),
               FileService_exists ?old (Inr True),
               SaveService_confirmOverwrite ?old (Inr True),
               WorkspaceService_save ?old (Inr ())], ?y3))"
    using F[where h = demoHost and w = ?y and sel = ?old and ?w1.0 = ?y1 and ?w2.0 = ?y1
              and ?w3.0 = ?y2 and r = "Inr ()" and ?w4.0 = ?y3 and tr = "[]",
            THEN conjunct2, THEN conjunct2, THEN conjunct2, THEN conjunct2, THEN conjunct1]
          dy ey cy sy x_old
    by simp
  show ?thesis using A B C D E x_new x_old by (intro conjI)
qed

end
